theory Spec2Isabelle
  imports Complex_Main
begin

section \<open>JavaScript numbers\<close>

text \<open>
  A JavaScript \<^verbatim>\<open>number\<close> is an IEEE-754 binary64 value.  A finite value is kept as the
  rational it denotes (the two zeros are identified), next to the two infinities and NaN.
  Arithmetic computes the exact rational result and rounds it to the nearest binary64
  value, ties to the even significand, as the language prescribes.
\<close>

datatype number = Fin rat | PInf | NInf | NaN

text \<open>The number of binary digits of a natural number (0 for 0).\<close>

fun bit_length :: "nat \<Rightarrow> nat" where
  "bit_length n = (if n = 0 then 0 else Suc (bit_length (n div 2)))"

declare bit_length.simps [simp del]

text \<open>For \<open>0 < a\<close>, the exponent \<open>e\<close> with \<open>2 powi e \<le> a < 2 powi (e + 1)\<close>.\<close>

definition exponent_of :: "rat \<Rightarrow> int" where
  "exponent_of a =
     (let k = int (bit_length (nat (fst (quotient_of a))))
              - int (bit_length (nat (snd (quotient_of a))))
      in if 2 powi k \<le> a then k else k - 1)"

definition round_half_even :: "rat \<Rightarrow> int" where
  "round_half_even x =
     (if x - of_int \<lfloor>x\<rfloor> < 1 / 2 then \<lfloor>x\<rfloor>
      else if 1 / 2 < x - of_int \<lfloor>x\<rfloor> then \<lfloor>x\<rfloor> + 1
      else if even \<lfloor>x\<rfloor> then \<lfloor>x\<rfloor> else \<lfloor>x\<rfloor> + 1)"

text \<open>
  Rounding of an exact result to binary64: 53 significant bits, least exponent \<open>-1022\<close>
  (below it the spacing stays \<open>2 powi -1074\<close>: subnormal values), and overflow to an infinity
  when the rounded significand leaves the exponent range that ends at 1023.
\<close>

definition round_double :: "rat \<Rightarrow> number" where
  "round_double q =
     (if q = 0 then Fin 0
      else
        let e = max (exponent_of \<bar>q\<bar>) (- 1022);
            m = round_half_even (\<bar>q\<bar> / 2 powi (e - 52))
        in if 1024 \<le> e \<or> (e = 1023 \<and> m = 2 ^ 53)
           then (if q < 0 then NInf else PInf)
           else Fin (sgn q * of_int m * 2 powi (e - 52)))"

text \<open>The value a numeric literal of the source denotes.\<close>

definition lit :: "rat \<Rightarrow> number" where
  "lit q = round_double q"

text \<open>\<^verbatim>\<open>a + b\<close> on numbers.\<close>

fun num_add :: "number \<Rightarrow> number \<Rightarrow> number" where
  "num_add NaN _ = NaN"
| "num_add _ NaN = NaN"
| "num_add PInf NInf = NaN"
| "num_add NInf PInf = NaN"
| "num_add PInf _ = PInf"
| "num_add _ PInf = PInf"
| "num_add NInf _ = NInf"
| "num_add _ NInf = NInf"
| "num_add (Fin a) (Fin b) = round_double (a + b)"

text \<open>\<^verbatim>\<open>a * b\<close> on numbers.\<close>

fun num_mul :: "number \<Rightarrow> number \<Rightarrow> number" where
  "num_mul NaN _ = NaN"
| "num_mul _ NaN = NaN"
| "num_mul (Fin a) (Fin b) = round_double (a * b)"
| "num_mul (Fin a) PInf = (if a = 0 then NaN else if 0 < a then PInf else NInf)"
| "num_mul (Fin a) NInf = (if a = 0 then NaN else if 0 < a then NInf else PInf)"
| "num_mul PInf (Fin b) = (if b = 0 then NaN else if 0 < b then PInf else NInf)"
| "num_mul NInf (Fin b) = (if b = 0 then NaN else if 0 < b then NInf else PInf)"
| "num_mul PInf PInf = PInf"
| "num_mul NInf NInf = PInf"
| "num_mul PInf NInf = NInf"
| "num_mul NInf PInf = NInf"

text \<open>\<^verbatim>\<open>a < b\<close> on numbers: every comparison with NaN is false.\<close>

fun num_less :: "number \<Rightarrow> number \<Rightarrow> bool" where
  "num_less NaN _ = False"
| "num_less _ NaN = False"
| "num_less (Fin a) (Fin b) = (a < b)"
| "num_less NInf NInf = False"
| "num_less NInf _ = True"
| "num_less _ NInf = False"
| "num_less PInf _ = False"
| "num_less _ PInf = True"

text \<open>\<^verbatim>\<open>Math.floor\<close>.\<close>

fun math_floor :: "number \<Rightarrow> number" where
  "math_floor (Fin a) = Fin (of_int \<lfloor>a\<rfloor>)"
| "math_floor x = x"

text \<open>\<^verbatim>\<open>a <= b\<close> on numbers, and truthiness: 0 and NaN are falsy.\<close>

fun num_le :: "number \<Rightarrow> number \<Rightarrow> bool" where
  "num_le NaN _ = False"
| "num_le _ NaN = False"
| "num_le (Fin a) (Fin b) = (a \<le> b)"
| "num_le NInf _ = True"
| "num_le _ PInf = True"
| "num_le PInf _ = False"
| "num_le _ NInf = False"

fun num_truthy :: "number \<Rightarrow> bool" where
  "num_truthy (Fin a) = (a \<noteq> 0)"
| "num_truthy NaN = False"
| "num_truthy _ = True"

text \<open>\<^verbatim>\<open>Math.max(a, b)\<close>: NaN when an argument is NaN, the larger argument otherwise.\<close>

fun math_max :: "number \<Rightarrow> number \<Rightarrow> number" where
  "math_max NaN _ = NaN"
| "math_max _ NaN = NaN"
| "math_max a b = (if num_less a b then b else a)"

text \<open>The length of an array, a whole number, as the number it denotes.\<close>

definition num_of_int :: "int \<Rightarrow> number" where
  "num_of_int n = round_double (of_int n)"

section \<open>Dates\<close>

text \<open>A \<^verbatim>\<open>Date\<close>: milliseconds since the epoch, or the invalid date.\<close>

datatype date = Date int | InvalidDate

section \<open>The cart store\<close>

text \<open>
  \<^verbatim>\<open>interface CartItem\<close>. The field \<^verbatim>\<open>id\<close> is named \<open>item_id\<close> here (\<open>id\<close> is the
  identity function of HOL); \<^verbatim>\<open>quantity\<close> is an optional \<^verbatim>\<open>number\<close> in the source.
\<close>

record cart_item =
  item_id :: string
  title :: string
  price :: number
  thumbnail :: string
  seller :: string
  subject :: string
  addedAt :: date
  quantity :: "number option"

record cart_stats =
  totalItems :: number
  totalPrice :: number
  formattedTotalPrice :: string
  uniqueItems :: nat

record cart_state =
  items :: "cart_item list"
  isLoading :: bool
  error :: "string option"

datatype cart_action =
    SET_LOADING bool
  | SET_ERROR "string option"
  | SET_ITEMS "cart_item list"
  | ADD_ITEM cart_item
  | REMOVE_ITEM string
  | UPDATE_QUANTITY string number
  | CLEAR_CART
  | CLEAR_ERROR

text \<open>\<^verbatim>\<open>Array.prototype.findIndex\<close>: the first index whose element satisfies the predicate;
  \<open>None\<close> stands for the result \<^verbatim>\<open>-1\<close>.\<close>

fun findIndex :: "('a \<Rightarrow> bool) \<Rightarrow> 'a list \<Rightarrow> nat option" where
  "findIndex P [] = None"
| "findIndex P (x # xs) =
     (if P x then Some 0 else map_option Suc (findIndex P xs))"

text \<open>\<^verbatim>\<open>item.quantity || 1\<close>: an absent quantity and the quantities 0 and NaN are falsy.\<close>

definition quantity_or_1 :: "number option \<Rightarrow> number" where
  "quantity_or_1 q = (case q of None \<Rightarrow> lit 1 | Some n \<Rightarrow> if num_truthy n then n else lit 1)"

fun cartReducer :: "cart_state \<Rightarrow> cart_action \<Rightarrow> cart_state" where
  "cartReducer state (SET_LOADING b) = state\<lparr>isLoading := b\<rparr>"
| "cartReducer state (SET_ERROR e) = state\<lparr>error := e, isLoading := False\<rparr>"
| "cartReducer state (SET_ITEMS payload) =
     state\<lparr>items := payload, isLoading := False, error := None\<rparr>"
| "cartReducer state (ADD_ITEM payload) =
     (case findIndex (\<lambda>item. item_id item = item_id payload) (items state) of
        Some existingItemIndex \<Rightarrow>
          state\<lparr>items := (items state)[existingItemIndex :=
                    (items state ! existingItemIndex)
                      \<lparr>quantity :=
                         Some (num_add (quantity_or_1 (quantity (items state ! existingItemIndex)))
                                       (lit 1))\<rparr>],
                error := None\<rparr>
      | None \<Rightarrow> state\<lparr>items := items state @ [payload], error := None\<rparr>)"
| "cartReducer state (REMOVE_ITEM payload) =
     state\<lparr>items := filter (\<lambda>item. item_id item \<noteq> payload) (items state), error := None\<rparr>"
| "cartReducer state (UPDATE_QUANTITY ident qty) =
     state\<lparr>items := map (\<lambda>item. if item_id item = ident
                                   then item\<lparr>quantity := Some (math_max (lit 1) qty)\<rparr>
                                   else item) (items state),
           error := None\<rparr>"
| "cartReducer state CLEAR_CART = state\<lparr>items := [], error := None\<rparr>"
| "cartReducer state CLEAR_ERROR = state\<lparr>error := None\<rparr>"

definition initialState :: cart_state where
  "initialState = \<lparr>items = [], isLoading = True, error = None\<rparr>"

text \<open>
  The operations of the provider. Each dispatches one action; \<open>dispatch\<close> does not throw,
  so the \<^verbatim>\<open>catch\<close> branches of the source are not taken. \<^verbatim>\<open>addItem\<close> spreads its
  argument and overwrites \<^verbatim>\<open>addedAt\<close> (with the current time, the argument \<open>now\<close>) and
  \<^verbatim>\<open>quantity\<close> (with 1).
\<close>

definition addItem :: "cart_item \<Rightarrow> int \<Rightarrow> cart_state \<Rightarrow> cart_state" where
  "addItem item now state =
     cartReducer state (ADD_ITEM (item\<lparr>addedAt := Date now, quantity := Some (lit 1)\<rparr>))"

definition removeItem :: "string \<Rightarrow> cart_state \<Rightarrow> cart_state" where
  "removeItem ident state = cartReducer state (REMOVE_ITEM ident)"

definition updateItemQuantity :: "string \<Rightarrow> number \<Rightarrow> cart_state \<Rightarrow> cart_state" where
  "updateItemQuantity ident qty state =
     (if num_le qty (lit 0) then removeItem ident state
      else cartReducer state (UPDATE_QUANTITY ident qty))"

definition clearCart :: "cart_state \<Rightarrow> cart_state" where
  "clearCart state = cartReducer state CLEAR_CART"

text \<open>
  \<^verbatim>\<open>cartStats\<close>: two left-to-right reductions over the items. \<^verbatim>\<open>formatPrice\<close> comes from
  a module that is not part of the sources at hand and is a parameter.
\<close>

definition cartStats :: "(number \<Rightarrow> string) \<Rightarrow> cart_item list \<Rightarrow> cart_stats" where
  "cartStats formatPrice its =
     (let total_items =
            foldl (\<lambda>sum item. num_add sum (quantity_or_1 (quantity item))) (lit 0) its;
          total_price =
            foldl (\<lambda>sum item.
                     num_add sum (num_mul (price item) (quantity_or_1 (quantity item))))
                  (lit 0) its
      in \<lparr>totalItems = total_items,
          totalPrice = total_price,
          formattedTotalPrice = formatPrice total_price,
          uniqueItems = length its\<rparr>)"

text \<open>A call of one of the four cart operations, and a sequence of calls.\<close>

datatype cart_op =
    AddItem cart_item int
  | RemoveItem string
  | UpdateItemQuantity string number
  | ClearCart

fun cart_step :: "cart_state \<Rightarrow> cart_op \<Rightarrow> cart_state" where
  "cart_step state (AddItem item now) = addItem item now state"
| "cart_step state (RemoveItem ident) = removeItem ident state"
| "cart_step state (UpdateItemQuantity ident qty) = updateItemQuantity ident qty state"
| "cart_step state ClearCart = clearCart state"

definition run_cart :: "cart_op list \<Rightarrow> cart_state" where
  "run_cart ops = foldl cart_step initialState ops"

text \<open>
  The invariant of the item list: identifiers are pairwise different and every entry has
  a quantity.
\<close>

definition cart_inv :: "cart_item list \<Rightarrow> bool" where
  "cart_inv its \<longleftrightarrow>
     distinct (map item_id its) \<and> (\<forall>item \<in> set its. \<exists>q. quantity item = Some q)"

text \<open>The whole number \<open>n\<close> as a quantity.\<close>

definition whole :: "int \<Rightarrow> number" where
  "whole n = Fin (of_int n)"

text \<open>
  Whole-number quantities. A call of \<^verbatim>\<open>updateItemQuantity\<close> is whole when the quantity it
  passes is a whole number. The budget of a sequence of calls bounds the sum of the
  quantities it can leave in the cart: every \<^verbatim>\<open>addItem\<close> counts 1 and every
  \<^verbatim>\<open>updateItemQuantity\<close> counts the quantity it passes, when that is positive.
\<close>

fun whole_number :: "number \<Rightarrow> bool" where
  "whole_number (Fin q) = (of_int \<lfloor>q\<rfloor> = q)"
| "whole_number _ = False"

fun floor_number :: "number \<Rightarrow> int" where
  "floor_number (Fin q) = \<lfloor>q\<rfloor>"
| "floor_number _ = 0"

fun whole_op :: "cart_op \<Rightarrow> bool" where
  "whole_op (UpdateItemQuantity ident qty) = whole_number qty"
| "whole_op _ = True"

fun op_budget :: "cart_op \<Rightarrow> int" where
  "op_budget (AddItem item now) = 1"
| "op_budget (UpdateItemQuantity ident qty) = max 0 (floor_number qty)"
| "op_budget _ = 0"

definition cart_budget :: "cart_op list \<Rightarrow> int" where
  "cart_budget ops = sum_list (map op_budget ops)"

definition quantity_int :: "cart_item \<Rightarrow> int" where
  "quantity_int item = (case quantity item of Some q \<Rightarrow> floor_number q | None \<Rightarrow> 0)"

text \<open>
  The invariant of a cart built by whole calls within the budget \<open>B\<close>: every quantity is a
  whole number, at least 1, and the quantities sum to at most \<open>B\<close>.
\<close>

definition whole_inv :: "int \<Rightarrow> cart_item list \<Rightarrow> bool" where
  "whole_inv B its \<longleftrightarrow>
     (\<forall>item \<in> set its. \<exists>q. 1 \<le> q \<and> quantity item = Some (whole q))
     \<and> sum_list (map quantity_int its) \<le> B"

text \<open>An example item, for the concrete evaluations below.\<close>

definition example_item :: "string \<Rightarrow> rat \<Rightarrow> cart_item" where
  "example_item ident p =
     \<lparr>item_id = ident, title = ''Calculus notes'', price = lit p, thumbnail = ''t.png'',
      seller = ''Sam'', subject = ''Mathematics'', addedAt = Date 0, quantity = None\<rparr>"

section \<open>The payment service\<close>

text \<open>
  \<^verbatim>\<open>xs[i]\<close> for an array and a number: the element when the number is a whole index
  inside the array, \<^verbatim>\<open>undefined\<close> (here \<open>None\<close>) otherwise.
\<close>

fun array_get :: "'a list \<Rightarrow> number \<Rightarrow> 'a option" where
  "array_get xs (Fin a) =
     (if of_int \<lfloor>a\<rfloor> = a \<and> 0 \<le> a \<and> nat \<lfloor>a\<rfloor> < length xs
      then Some (xs ! nat \<lfloor>a\<rfloor>) else None)"
| "array_get xs _ = None"

text \<open>The decimal digits of a whole number, as a template literal prints it.\<close>

fun decimal_nat :: "nat \<Rightarrow> string" where
  "decimal_nat n =
     (if n < 10 then [''0123456789'' ! n]
      else decimal_nat (n div 10) @ [''0123456789'' ! (n mod 10)])"

definition decimal :: "int \<Rightarrow> string" where
  "decimal i = (if i < 0 then CHR ''-'' # decimal_nat (nat (- i)) else decimal_nat (nat i))"

text \<open>\<^verbatim>\<open>toUpperCase\<close> and \<^verbatim>\<open>toLowerCase\<close>, on the ASCII letters.\<close>

definition upper_char :: "char \<Rightarrow> char" where
  "upper_char c =
     (if of_char CHR ''a'' \<le> (of_char c :: nat) \<and> (of_char c :: nat) \<le> of_char CHR ''z''
      then char_of (of_char c - 32 :: nat) else c)"

definition lower_char :: "char \<Rightarrow> char" where
  "lower_char c =
     (if of_char CHR ''A'' \<le> (of_char c :: nat) \<and> (of_char c :: nat) \<le> of_char CHR ''Z''
      then char_of (of_char c + 32 :: nat) else c)"

definition toUpperCase :: "string \<Rightarrow> string" where
  "toUpperCase s = map upper_char s"

definition toLowerCase :: "string \<Rightarrow> string" where
  "toLowerCase s = map lower_char s"

text \<open>
  What the platform supplies and the sources only call: the renderings of numbers
  (\<^verbatim>\<open>toFixed(2)\<close>, \<^verbatim>\<open>toString(36)\<close>), of dates (\<^verbatim>\<open>toISOString\<close>, which
  \<^verbatim>\<open>JSON.stringify\<close> uses for a date) and the reading of a date from a string
  (\<^verbatim>\<open>new Date(s)\<close>). They are parameters of the model.
\<close>

record platform =
  toFixed2 :: "number \<Rightarrow> string"
  toString36 :: "number \<Rightarrow> string"
  toISOString :: "int \<Rightarrow> string"
  dateParse :: "string \<Rightarrow> date"

datatype PaymentMethod = STRIPE | PAYPAL | RAZORPAY | APPLE_PAY | GOOGLE_PAY

text \<open>The string value of each member of the enumeration.\<close>

fun method_text :: "PaymentMethod \<Rightarrow> string" where
  "method_text STRIPE = ''stripe''"
| "method_text PAYPAL = ''paypal''"
| "method_text RAZORPAY = ''razorpay''"
| "method_text APPLE_PAY = ''apple_pay''"
| "method_text GOOGLE_PAY = ''google_pay''"

datatype PaymentStatus = PENDING | PROCESSING | COMPLETED | FAILED | CANCELLED

text \<open>
  \<^verbatim>\<open>interface PaymentRequest\<close>. The fields of a line item and of the customer carry a
  prefix, since \<open>title\<close>, \<open>price\<close>, \<open>quantity\<close> and \<open>items\<close> are fields of the cart;
  \<^verbatim>\<open>method\<close> is \<open>req_method\<close>, since the plain word is a keyword of Isabelle.
\<close>

record line_item =
  li_id :: string
  li_title :: string
  li_price :: number
  li_quantity :: number

record customer_info =
  cust_email :: string
  cust_name :: string

record PaymentRequest =
  amount :: number
  currency :: string
  req_method :: PaymentMethod
  req_items :: "line_item list"
  customerInfo :: customer_info

record PaymentResponse =
  success :: bool
  transactionId :: "string option"
  status :: PaymentStatus
  message :: string
  redirectUrl :: "string option"
  resp_error :: "string option"

text \<open>
  The values that a call of \<^verbatim>\<open>processPayment\<close> draws: four results of
  \<^verbatim>\<open>Math.random()\<close>, in the order of the calls, and the clock read for the
  transaction identifier.
\<close>

record draws =
  delay_random :: number
  success_random :: number
  txn_now :: int
  txn_random :: number
  failure_random :: number

fun successRates :: "PaymentMethod \<Rightarrow> number" where
  "successRates STRIPE = lit (95 / 100)"
| "successRates PAYPAL = lit (92 / 100)"
| "successRates RAZORPAY = lit (90 / 100)"
| "successRates APPLE_PAY = lit (97 / 100)"
| "successRates GOOGLE_PAY = lit (96 / 100)"

definition failures :: "string list" where
  "failures = [''Insufficient funds'', ''Payment method declined'', ''Network timeout'',
               ''Invalid payment details'']"

text \<open>
  The result of a call of \<^verbatim>\<open>processPayment\<close>: the milliseconds of the simulated network
  delay that the call awaited, and the response it resolved to.
\<close>

record payment_run =
  waited :: number
  response :: PaymentResponse

definition processPayment :: "platform \<Rightarrow> draws \<Rightarrow> PaymentRequest \<Rightarrow> payment_run" where
  "processPayment pf d paymentRequest =
     (let delay = num_add (lit 2000) (num_mul (delay_random d) (lit 3000));
          successRate = successRates (req_method paymentRequest);
          isSuccess = num_less (success_random d) successRate
      in if isSuccess then
           \<lparr>waited = delay,
            response =
              \<lparr>success = True,
               transactionId =
                 Some (''txn_'' @ decimal (txn_now d) @ ''_''
                       @ take 9 (drop 2 (toString36 pf (txn_random d)))),
               status = COMPLETED,
               message = ''Payment of '' @ currency paymentRequest @ '' ''
                         @ toFixed2 pf (amount paymentRequest)
                         @ '' processed successfully via ''
                         @ toUpperCase (method_text (req_method paymentRequest)),
               redirectUrl = None,
               resp_error = None\<rparr>\<rparr>
         else
           \<lparr>waited = delay,
            response =
              \<lparr>success = False,
               transactionId = None,
               status = FAILED,
               message = ''Payment failed'',
               redirectUrl = None,
               resp_error =
                 array_get failures
                   (math_floor (num_mul (failure_random d)
                                        (num_of_int (int (length failures)))))\<rparr>\<rparr>)"

text \<open>
  \<^verbatim>\<open>validatePaymentRequest\<close>: the errors in the order of the six checks. The request
  is typed, so \<^verbatim>\<open>!request.items\<close> is false and the check of the method looks at the
  (never empty) string of the member.
\<close>

definition validatePaymentRequest :: "PaymentRequest \<Rightarrow> string list" where
  "validatePaymentRequest request =
     (if \<not> num_truthy (amount request) \<or> num_le (amount request) (lit 0)
      then [''Invalid payment amount''] else [])
     @ (if currency request = [] then [''Currency is required''] else [])
     @ (if method_text (req_method request) = [] then [''Payment method is required''] else [])
     @ (if req_items request = [] then [''No items to purchase''] else [])
     @ (if cust_email (customerInfo request) = [] then [''Customer email is required''] else [])
     @ (if cust_name (customerInfo request) = [] then [''Customer name is required''] else [])"

section \<open>Cart page and checkout page\<close>

text \<open>\<^verbatim>\<open>cartSummary\<close> of the cart page, which is also \<^verbatim>\<open>orderSummary\<close> of the checkout
  page: both are computed from \<^verbatim>\<open>totalPrice\<close> by the same three expressions. The field
  \<^verbatim>\<open>total\<close> is named \<open>total_due\<close> (\<open>total\<close> is a constant of HOL).\<close>

record summary =
  subtotal :: number
  tax :: number
  total_due :: number

definition cartSummary :: "number \<Rightarrow> summary" where
  "cartSummary total_price =
     \<lparr>subtotal = total_price,
      tax = num_mul total_price (lit (1 / 10)),
      total_due = num_mul total_price (lit (11 / 10))\<rparr>"

text \<open>What the checkout hands to the orders page on success.\<close>

record order_data =
  od_transactionId :: "string option"
  od_items :: "line_item list"
  od_total :: number
  od_paymentMethod :: PaymentMethod
  od_date :: date

text \<open>
  \<^verbatim>\<open>handleCheckout\<close>. The outcome names the toast that is shown; only the last two
  outcomes contain a run of \<^verbatim>\<open>processPayment\<close>. The cart state is returned along: it is
  cleared on success.
\<close>

datatype checkout_outcome =
    EmptyCart
  | ValidationError "string list"
  | PaymentSuccessful payment_run order_data
  | PaymentFailed payment_run

definition checkoutRequest ::
  "(number \<Rightarrow> string) \<Rightarrow> PaymentMethod \<Rightarrow> customer_info \<Rightarrow> cart_state \<Rightarrow> PaymentRequest" where
  "checkoutRequest formatPrice selectedPaymentMethod customer cart =
     \<lparr>amount = total_due (cartSummary (totalPrice (cartStats formatPrice (items cart)))),
      currency = ''USD'',
      req_method = selectedPaymentMethod,
      req_items =
        map (\<lambda>item. \<lparr>li_id = item_id item, li_title = title item,
                      li_price = price item,
                      li_quantity = quantity_or_1 (quantity item)\<rparr>) (items cart),
      customerInfo = customer\<rparr>"

definition handleCheckout ::
  "platform \<Rightarrow> (number \<Rightarrow> string) \<Rightarrow> draws \<Rightarrow> int \<Rightarrow> PaymentMethod \<Rightarrow> customer_info
     \<Rightarrow> cart_state \<Rightarrow> checkout_outcome \<times> cart_state" where
  "handleCheckout pf formatPrice d now selectedPaymentMethod customer cart =
     (if length (items cart) = 0 then (EmptyCart, cart)
      else
        let orderSummary = cartSummary (totalPrice (cartStats formatPrice (items cart)));
            paymentRequest = checkoutRequest formatPrice selectedPaymentMethod customer cart;
            validationErrors = validatePaymentRequest paymentRequest
        in if 0 < length validationErrors then (ValidationError validationErrors, cart)
           else
             let result = processPayment pf d paymentRequest
             in if success (response result) then
                  (PaymentSuccessful result
                     \<lparr>od_transactionId = transactionId (response result),
                      od_items = req_items paymentRequest,
                      od_total = total_due orderSummary,
                      od_paymentMethod = selectedPaymentMethod,
                      od_date = Date now\<rparr>,
                   clearCart cart)
                else (PaymentFailed result, cart))"

text \<open>
  A result of \<^verbatim>\<open>Math.random()\<close>: a binary64 value (rounding leaves it as it is) that is
  at least 0 and less than 1.
\<close>

fun unit_random :: "number \<Rightarrow> bool" where
  "unit_random (Fin q) = (round_double q = Fin q \<and> 0 \<le> q \<and> q < 1)"
| "unit_random _ = False"

text \<open>
  Concrete values for the evaluations below: a platform that answers as a JavaScript
  engine does on the arguments that occur there, a price formatter, draws that lead to a
  success and to a failure, and a request without line items.
\<close>

definition example_platform :: platform where
  "example_platform =
     \<lparr>toFixed2 = (\<lambda>x. if x = Fin 0 then ''0.00'' else ''17.59''),
      toString36 = (\<lambda>x. ''0.i''),
      toISOString = (\<lambda>t. ''1970-01-01T00:00:00.000Z''),
      dateParse = (\<lambda>s. if s = ''1970-01-01T00:00:00.000Z'' then Date 0 else InvalidDate)\<rparr>"

definition example_format :: "number \<Rightarrow> string" where
  "example_format p = ''$''"

definition success_draws :: draws where
  "success_draws =
     \<lparr>delay_random = Fin 0, success_random = Fin 0, txn_now = 1700000000000,
      txn_random = Fin (1 / 2), failure_random = Fin 0\<rparr>"

definition failure_draws :: draws where
  "failure_draws =
     \<lparr>delay_random = Fin 0, success_random = Fin (63 / 64), txn_now = 1700000000000,
      txn_random = Fin (1 / 2), failure_random = Fin (1 / 2)\<rparr>"

definition empty_request :: PaymentRequest where
  "empty_request =
     \<lparr>amount = Fin 0, currency = ''USD'', req_method = STRIPE, req_items = [],
      customerInfo = \<lparr>cust_email = ''jo@x.com'', cust_name = ''Jo''\<rparr>\<rparr>"

section \<open>Persisted storage and JSON\<close>

text \<open>The values that \<^verbatim>\<open>JSON.parse\<close> returns. An object is the list of its properties.\<close>

datatype json =
    JNull
  | JBool bool
  | JNum number
  | JStr string
  | JArr "json list"
  | JObj "(string \<times> json) list"

text \<open>
  A string held in \<^verbatim>\<open>localStorage\<close> is represented by what \<^verbatim>\<open>JSON.parse\<close> makes of it:
  \<open>Json j\<close> is a text that parses to the value \<open>j\<close> (the text that \<^verbatim>\<open>JSON.stringify\<close>
  writes for \<open>j\<close> is one), and \<open>Garbage s\<close> is a string \<open>s\<close> that \<^verbatim>\<open>JSON.parse\<close> rejects
  with a SyntaxError; the empty string is one of these.
\<close>

datatype stored = Json json | Garbage string

datatype js_error = SyntaxError | TypeError | QuotaExceededError

definition JSON_parse :: "stored \<Rightarrow> js_error + json" where
  "JSON_parse t = (case t of Json j \<Rightarrow> Inr j | Garbage s \<Rightarrow> Inl SyntaxError)"

text \<open>Truthiness of a string (only the empty string is falsy) and of a parsed value.\<close>

definition stored_truthy :: "stored \<Rightarrow> bool" where
  "stored_truthy t = (case t of Json j \<Rightarrow> True | Garbage s \<Rightarrow> s \<noteq> [])"

fun json_truthy :: "json \<Rightarrow> bool" where
  "json_truthy JNull = False"
| "json_truthy (JBool b) = b"
| "json_truthy (JNum n) = num_truthy n"
| "json_truthy (JStr s) = (s \<noteq> [])"
| "json_truthy (JArr xs) = True"
| "json_truthy (JObj fs) = True"

text \<open>A property that is absent (\<^verbatim>\<open>undefined\<close>) is falsy.\<close>

definition field_truthy :: "(string \<times> json) list \<Rightarrow> string \<Rightarrow> bool" where
  "field_truthy fs k = (case map_of fs k of None \<Rightarrow> False | Some v \<Rightarrow> json_truthy v)"

text \<open>
  The storage: the entries, and whether the quota is exhausted, in which case
  \<^verbatim>\<open>setItem\<close> throws.
\<close>

record storage =
  entries :: "string \<Rightarrow> stored option"
  quota_exceeded :: bool

definition getItem :: "storage \<Rightarrow> string \<Rightarrow> stored option" where
  "getItem st k = entries st k"

definition setItem :: "storage \<Rightarrow> string \<Rightarrow> stored \<Rightarrow> js_error + storage" where
  "setItem st k v =
     (if quota_exceeded st then Inl QuotaExceededError
      else Inr (st\<lparr>entries := (entries st)(k \<mapsto> v)\<rparr>))"

definition empty_storage :: storage where
  "empty_storage = \<lparr>entries = (\<lambda>k. None), quota_exceeded = False\<rparr>"

definition USER_KEY :: string where
  "USER_KEY = ''notemart_user''"

definition CART_KEY :: string where
  "CART_KEY = ''notemart_cart''"

definition ORDERS_KEY :: string where
  "ORDERS_KEY = ''notemart_orders''"

text \<open>
  The sources cast what they parse to their interfaces without a check. The model is
  typed, so reading a parsed value has a second outcome: \<open>Beyond\<close> says that the code goes
  on with a value that does not have the type of the interface (or that the model does not
  follow), \<open>Typed\<close> carries the value otherwise.
\<close>

datatype 'a reading = Typed 'a | Beyond

text \<open>\<^verbatim>\<open>new Date(v)\<close> for a parsed value, and the time value of a number.\<close>

fun time_clip :: "number \<Rightarrow> date" where
  "time_clip (Fin q) =
     (if \<bar>q\<bar> \<le> 8640000000000000 then Date (if 0 \<le> q then \<lfloor>q\<rfloor> else \<lceil>q\<rceil>)
      else InvalidDate)"
| "time_clip x = InvalidDate"

fun new_Date :: "platform \<Rightarrow> json \<Rightarrow> date reading" where
  "new_Date pf (JStr s) = Typed (dateParse pf s)"
| "new_Date pf (JNum n) = Typed (time_clip n)"
| "new_Date pf (JBool b) = Typed (Date (if b then 1 else 0))"
| "new_Date pf JNull = Typed (Date 0)"
| "new_Date pf (JArr xs) = Beyond"
| "new_Date pf (JObj fs) = Beyond"

text \<open>What \<^verbatim>\<open>JSON.stringify\<close> writes for a date and for a number.\<close>

fun date_json :: "platform \<Rightarrow> date \<Rightarrow> json" where
  "date_json pf (Date t) = JStr (toISOString pf t)"
| "date_json pf InvalidDate = JNull"

fun num_json :: "number \<Rightarrow> json" where
  "num_json (Fin q) = JNum (Fin q)"
| "num_json x = JNull"

section \<open>Loading the cart\<close>

text \<open>
  The typed reading of one element of the parsed array, after the spread and the two
  overwritten properties: \<^verbatim>\<open>addedAt\<close> is \<^verbatim>\<open>new Date(item.addedAt || Date.now())\<close> and
  \<^verbatim>\<open>quantity\<close> is \<^verbatim>\<open>item.quantity || 1\<close>.
\<close>

definition restored_addedAt :: "platform \<Rightarrow> int \<Rightarrow> (string \<times> json) list \<Rightarrow> date reading" where
  "restored_addedAt pf now fs =
     (case map_of fs ''addedAt'' of
        None \<Rightarrow> Typed (Date now)
      | Some v \<Rightarrow> if json_truthy v then new_Date pf v else Typed (Date now))"

definition restored_quantity :: "(string \<times> json) list \<Rightarrow> number option reading" where
  "restored_quantity fs =
     (case map_of fs ''quantity'' of
        None \<Rightarrow> Typed (Some (lit 1))
      | Some v \<Rightarrow>
          if \<not> json_truthy v then Typed (Some (lit 1))
          else (case v of JNum n \<Rightarrow> Typed (Some n) | _ \<Rightarrow> Beyond))"

definition restored_item :: "platform \<Rightarrow> int \<Rightarrow> json \<Rightarrow> cart_item reading" where
  "restored_item pf now j =
     (case j of
        JObj fs \<Rightarrow>
          (case (map_of fs ''id'', map_of fs ''title'', map_of fs ''price'',
                 map_of fs ''thumbnail'', map_of fs ''seller'', map_of fs ''subject'',
                 restored_addedAt pf now fs, restored_quantity fs) of
             (Some (JStr i), Some (JStr t), Some (JNum p), Some (JStr th), Some (JStr se),
              Some (JStr su), Typed d, Typed q) \<Rightarrow>
               Typed \<lparr>item_id = i, title = t, price = p, thumbnail = th, seller = se,
                      subject = su, addedAt = d, quantity = q\<rparr>
           | _ \<Rightarrow> Beyond)
      | _ \<Rightarrow> Beyond)"

fun all_typed :: "'a reading list \<Rightarrow> 'a list reading" where
  "all_typed [] = Typed []"
| "all_typed (Beyond # rs) = Beyond"
| "all_typed (Typed x # rs) = (case all_typed rs of Typed xs \<Rightarrow> Typed (x # xs) | Beyond \<Rightarrow> Beyond)"

text \<open>
  \<^verbatim>\<open>parseCartData\<close>. Three failures end in the \<^verbatim>\<open>catch\<close> branch, which returns the empty
  array: the SyntaxError of \<^verbatim>\<open>JSON.parse\<close>, the error thrown for a value that is not an
  array, and the TypeError of reading \<^verbatim>\<open>addedAt\<close> from an element that is \<^verbatim>\<open>null\<close>.
\<close>

definition parseCartData :: "platform \<Rightarrow> int \<Rightarrow> stored \<Rightarrow> cart_item list reading" where
  "parseCartData pf now cartData =
     (case JSON_parse cartData of
        Inl e \<Rightarrow> Typed []
      | Inr parsed \<Rightarrow>
          (case parsed of
             JArr xs \<Rightarrow>
               if JNull \<in> set xs then Typed []
               else all_typed (map (restored_item pf now) xs)
           | _ \<Rightarrow> Typed []))"

text \<open>
  \<^verbatim>\<open>initializeCart\<close>, run once on the initial state. Nothing in its \<^verbatim>\<open>try\<close> block throws
  (\<^verbatim>\<open>parseCartData\<close> catches its own errors), so the \<^verbatim>\<open>catch\<close> branch is not taken.
\<close>

definition initializeCart :: "platform \<Rightarrow> int \<Rightarrow> storage \<Rightarrow> cart_state reading" where
  "initializeCart pf now st =
     (case getItem st CART_KEY of
        None \<Rightarrow> Typed (cartReducer initialState (SET_LOADING False))
      | Some savedCart \<Rightarrow>
          if stored_truthy savedCart then
            (case parseCartData pf now savedCart of
               Typed its \<Rightarrow> Typed (cartReducer initialState (SET_ITEMS its))
             | Beyond \<Rightarrow> Beyond)
          else Typed (cartReducer initialState (SET_LOADING False)))"

section \<open>The authentication store\<close>

datatype UserRole = BUYER | SELLER | ADMIN

fun role_text :: "UserRole \<Rightarrow> string" where
  "role_text BUYER = ''buyer''"
| "role_text SELLER = ''seller''"
| "role_text ADMIN = ''admin''"

text \<open>\<^verbatim>\<open>interface User\<close>; \<^verbatim>\<open>id\<close> is named \<open>user_id\<close>.\<close>

record user =
  user_id :: string
  email :: string
  name :: string
  role :: UserRole
  avatar :: "string option"
  createdAt :: date
  lastLoginAt :: "date option"

datatype AuthErrorType =
    INVALID_CREDENTIALS
  | USER_EXISTS
  | NETWORK_ERROR
  | INVALID_EMAIL
  | WEAK_PASSWORD
  | STORAGE_ERROR

record AuthError =
  err_type :: AuthErrorType
  err_message :: string
  originalError :: "js_error option"

text \<open>The state and the actions of the store; the names carry a prefix where the cart
  store has the same name.\<close>

record auth_state =
  auth_user :: "user option"
  auth_isLoading :: bool
  auth_error :: "AuthError option"

datatype auth_action =
    AUTH_SET_LOADING bool
  | SET_USER "user option"
  | AUTH_SET_ERROR "AuthError option"
  | AUTH_CLEAR_ERROR
  | LOGOUT

fun authReducer :: "auth_state \<Rightarrow> auth_action \<Rightarrow> auth_state" where
  "authReducer state (AUTH_SET_LOADING b) = state\<lparr>auth_isLoading := b\<rparr>"
| "authReducer state (SET_USER u) =
     state\<lparr>auth_user := u, auth_error := None, auth_isLoading := False\<rparr>"
| "authReducer state (AUTH_SET_ERROR e) = state\<lparr>auth_error := e, auth_isLoading := False\<rparr>"
| "authReducer state AUTH_CLEAR_ERROR = state\<lparr>auth_error := None\<rparr>"
| "authReducer state LOGOUT = \<lparr>auth_user = None, auth_isLoading = False, auth_error = None\<rparr>"

definition auth_initialState :: auth_state where
  "auth_initialState = \<lparr>auth_user = None, auth_isLoading = True, auth_error = None\<rparr>"

definition validatePassword :: "string \<Rightarrow> bool" where
  "validatePassword password = (6 \<le> length password)"

text \<open>
  String operations of the platform, on ASCII strings: \<^verbatim>\<open>includes\<close>, \<^verbatim>\<open>trim\<close>,
  \<^verbatim>\<open>split('@')[0]\<close> and \<^verbatim>\<open>encodeURIComponent\<close> (which keeps the unreserved characters and
  writes every other byte as a percent sign and two hexadecimal digits).
\<close>

fun starts_with :: "string \<Rightarrow> string \<Rightarrow> bool" where
  "starts_with s [] = True"
| "starts_with [] (c # cs) = False"
| "starts_with (x # xs) (c # cs) = (x = c \<and> starts_with xs cs)"

fun str_includes :: "string \<Rightarrow> string \<Rightarrow> bool" where
  "str_includes [] sub = (sub = [])"
| "str_includes (x # xs) sub = (starts_with (x # xs) sub \<or> str_includes xs sub)"

definition is_space :: "char \<Rightarrow> bool" where
  "is_space c = ((of_char c :: nat) \<in> {9, 10, 11, 12, 13, 32})"

definition trim :: "string \<Rightarrow> string" where
  "trim s = rev (dropWhile is_space (rev (dropWhile is_space s)))"

definition before_at :: "string \<Rightarrow> string" where
  "before_at s = takeWhile (\<lambda>c. c \<noteq> CHR ''@'') s"

definition uri_unreserved :: "char \<Rightarrow> bool" where
  "uri_unreserved c =
     (c \<in> set ''ABCDEFGHIJKLMNOPQRSTUVWXYZabcdefghijklmnopqrstuvwxyz0123456789-_.!~*()''
      \<or> c = CHR 0x27)"

definition hex_digit :: "nat \<Rightarrow> char" where
  "hex_digit n = ''0123456789ABCDEF'' ! (n mod 16)"

definition encodeURIComponent :: "string \<Rightarrow> string" where
  "encodeURIComponent s =
     concat (map (\<lambda>c. if uri_unreserved c then [c]
                       else [CHR ''%'', hex_digit (of_char c div 16), hex_digit (of_char c)]) s)"

definition determineUserRole :: "string \<Rightarrow> UserRole" where
  "determineUserRole e =
     (if str_includes e ''admin'' then ADMIN
      else if str_includes e ''seller'' then SELLER
      else BUYER)"

definition generateAvatarUrl :: "string \<Rightarrow> string" where
  "generateAvatarUrl e = ''https://api.dicebear.com/7.x/avataaars/svg?seed='' @ encodeURIComponent e"

text \<open>What \<^verbatim>\<open>JSON.stringify\<close> writes for a user: an absent property is left out.\<close>

definition user_json :: "platform \<Rightarrow> user \<Rightarrow> json" where
  "user_json pf u =
     JObj ([(''id'', JStr (user_id u)), (''email'', JStr (email u)), (''name'', JStr (name u)),
            (''role'', JStr (role_text (role u)))]
           @ (case avatar u of None \<Rightarrow> [] | Some a \<Rightarrow> [(''avatar'', JStr a)])
           @ [(''createdAt'', date_json pf (createdAt u))]
           @ (case lastLoginAt u of None \<Rightarrow> [] | Some d \<Rightarrow> [(''lastLoginAt'', date_json pf d)]))"

text \<open>\<^verbatim>\<open>saveUserData\<close>: a failure of \<^verbatim>\<open>setItem\<close> is thrown again as a storage error.\<close>

definition saveUserData :: "platform \<Rightarrow> storage \<Rightarrow> user \<Rightarrow> AuthError + storage" where
  "saveUserData pf st u =
     (case setItem st USER_KEY (Json (user_json pf u)) of
        Inl e \<Rightarrow> Inl \<lparr>err_type = STORAGE_ERROR, err_message = ''Failed to save user session'',
                      originalError = Some e\<rparr>
      | Inr st' \<Rightarrow> Inr st')"

text \<open>
  \<^verbatim>\<open>parseUserData\<close>. \<open>Typed None\<close> is the result \<^verbatim>\<open>null\<close>: the text does not parse, the
  parsed value is \<^verbatim>\<open>null\<close> (reading a property throws), or one of the four required
  properties is falsy. Of the other parsed values only an object can have the properties.
\<close>

fun role_of_text :: "string \<Rightarrow> UserRole option" where
  "role_of_text s =
     (if s = ''buyer'' then Some BUYER
      else if s = ''seller'' then Some SELLER
      else if s = ''admin'' then Some ADMIN
      else None)"

definition parsed_createdAt :: "platform \<Rightarrow> int \<Rightarrow> (string \<times> json) list \<Rightarrow> date reading" where
  "parsed_createdAt pf now fs =
     (case map_of fs ''createdAt'' of
        None \<Rightarrow> Typed (Date now)
      | Some v \<Rightarrow> if json_truthy v then new_Date pf v else Typed (Date now))"

definition parsed_lastLoginAt :: "platform \<Rightarrow> (string \<times> json) list \<Rightarrow> date option reading" where
  "parsed_lastLoginAt pf fs =
     (case map_of fs ''lastLoginAt'' of
        None \<Rightarrow> Typed None
      | Some v \<Rightarrow>
          if json_truthy v
          then (case new_Date pf v of Typed d \<Rightarrow> Typed (Some d) | Beyond \<Rightarrow> Beyond)
          else Typed None)"

definition parsed_avatar :: "(string \<times> json) list \<Rightarrow> string option reading" where
  "parsed_avatar fs =
     (case map_of fs ''avatar'' of
        None \<Rightarrow> Typed None
      | Some (JStr a) \<Rightarrow> Typed (Some a)
      | Some v \<Rightarrow> Beyond)"

definition parseUserData :: "platform \<Rightarrow> int \<Rightarrow> stored \<Rightarrow> user option reading" where
  "parseUserData pf now userData =
     (case JSON_parse userData of
        Inl e \<Rightarrow> Typed None
      | Inr parsed \<Rightarrow>
          (case parsed of
             JObj fs \<Rightarrow>
               if \<not> field_truthy fs ''id'' \<or> \<not> field_truthy fs ''email''
                  \<or> \<not> field_truthy fs ''name'' \<or> \<not> field_truthy fs ''role''
               then Typed None
               else
                 (case (map_of fs ''id'', map_of fs ''email'', map_of fs ''name'',
                        map_of fs ''role'', parsed_avatar fs, parsed_createdAt pf now fs,
                        parsed_lastLoginAt pf fs) of
                    (Some (JStr i), Some (JStr e), Some (JStr n), Some (JStr r),
                     Typed a, Typed c, Typed l) \<Rightarrow>
                      (case role_of_text r of
                         Some ro \<Rightarrow>
                           Typed (Some \<lparr>user_id = i, email = e, name = n, role = ro, avatar = a,
                                        createdAt = c, lastLoginAt = l\<rparr>)
                       | None \<Rightarrow> Beyond)
                  | _ \<Rightarrow> Beyond)
           | _ \<Rightarrow> Typed None))"

text \<open>\<^verbatim>\<open>initializeAuth\<close>, run once on the initial state.\<close>

definition initializeAuth :: "platform \<Rightarrow> int \<Rightarrow> storage \<Rightarrow> auth_state reading" where
  "initializeAuth pf now st =
     (case getItem st USER_KEY of
        None \<Rightarrow> Typed (authReducer auth_initialState (AUTH_SET_LOADING False))
      | Some savedUserData \<Rightarrow>
          if stored_truthy savedUserData then
            (case parseUserData pf now savedUserData of
               Typed (Some u) \<Rightarrow> Typed (authReducer auth_initialState (SET_USER (Some u)))
             | Typed None \<Rightarrow> Typed (authReducer auth_initialState (AUTH_SET_LOADING False))
             | Beyond \<Rightarrow> Beyond)
          else Typed (authReducer auth_initialState (AUTH_SET_LOADING False)))"

text \<open>
  The result of a call of \<^verbatim>\<open>login\<close> or \<^verbatim>\<open>register\<close>: the state and the storage after
  the call, the milliseconds of \<^verbatim>\<open>simulateApiDelay\<close> that the call awaited, and the error
  it threw, if any.
\<close>

record auth_run =
  run_state :: auth_state
  run_storage :: storage
  run_waited :: nat
  run_thrown :: "AuthError option"

text \<open>The \<^verbatim>\<open>catch\<close> branch for an error that is an \<^verbatim>\<open>AuthError\<close>: it is dispatched and
  thrown again. (No other error arises in the model.)\<close>

definition auth_failed :: "auth_state \<Rightarrow> storage \<Rightarrow> nat \<Rightarrow> AuthError \<Rightarrow> auth_run" where
  "auth_failed state st ms e =
     \<lparr>run_state = authReducer state (AUTH_SET_ERROR (Some e)), run_storage = st,
      run_waited = ms, run_thrown = Some e\<rparr>"

text \<open>
  \<^verbatim>\<open>login\<close> and \<^verbatim>\<open>register\<close>. \<^verbatim>\<open>isValidEmail\<close> and \<^verbatim>\<open>generateId\<close> come from a module
  that is not part of the sources at hand: the first is a parameter, of the second the
  identifier it returns in this call. \<open>now\<close> is the clock that \<^verbatim>\<open>new Date()\<close> reads.
\<close>

definition login ::
  "(string \<Rightarrow> bool) \<Rightarrow> platform \<Rightarrow> string \<Rightarrow> int \<Rightarrow> string \<Rightarrow> string
     \<Rightarrow> auth_state \<Rightarrow> storage \<Rightarrow> auth_run" where
  "login isValidEmail pf generatedId now e password state st =
     (let s1 = authReducer (authReducer state (AUTH_SET_LOADING True)) AUTH_CLEAR_ERROR
      in if \<not> isValidEmail e then
           auth_failed s1 st 0
             \<lparr>err_type = INVALID_EMAIL, err_message = ''Invalid email or password'',
              originalError = None\<rparr>
         else if \<not> validatePassword password then
           auth_failed s1 st 0
             \<lparr>err_type = WEAK_PASSWORD, err_message = ''Password is too weak'',
              originalError = None\<rparr>
         else
           let mockUser =
                 \<lparr>user_id = generatedId, email = trim (toLowerCase e), name = before_at e,
                  role = determineUserRole e, avatar = Some (generateAvatarUrl e),
                  createdAt = Date now, lastLoginAt = Some (Date now)\<rparr>
           in (case saveUserData pf st mockUser of
                 Inl authError \<Rightarrow> auth_failed s1 st 1000 authError
               | Inr st' \<Rightarrow>
                   \<lparr>run_state = authReducer s1 (SET_USER (Some mockUser)), run_storage = st',
                    run_waited = 1000, run_thrown = None\<rparr>))"

definition register ::
  "(string \<Rightarrow> bool) \<Rightarrow> platform \<Rightarrow> string \<Rightarrow> int \<Rightarrow> string \<Rightarrow> string \<Rightarrow> string
     \<Rightarrow> UserRole option \<Rightarrow> auth_state \<Rightarrow> storage \<Rightarrow> auth_run" where
  "register isValidEmail pf generatedId now e password n role_arg state st =
     (let ro = (case role_arg of None \<Rightarrow> BUYER | Some r \<Rightarrow> r);
          s1 = authReducer (authReducer state (AUTH_SET_LOADING True)) AUTH_CLEAR_ERROR
      in if \<not> isValidEmail e then
           auth_failed s1 st 0
             \<lparr>err_type = INVALID_EMAIL, err_message = ''Please enter a valid email address'',
              originalError = None\<rparr>
         else if \<not> validatePassword password then
           auth_failed s1 st 0
             \<lparr>err_type = WEAK_PASSWORD,
              err_message = ''Password must be at least 6 characters long'',
              originalError = None\<rparr>
         else if trim n = [] then
           auth_failed s1 st 0
             \<lparr>err_type = INVALID_CREDENTIALS, err_message = ''Name is required'',
              originalError = None\<rparr>
         else
           let mockUser =
                 \<lparr>user_id = generatedId, email = trim (toLowerCase e), name = trim n,
                  role = ro, avatar = Some (generateAvatarUrl e),
                  createdAt = Date now, lastLoginAt = Some (Date now)\<rparr>
           in (case saveUserData pf st mockUser of
                 Inl authError \<Rightarrow> auth_failed s1 st 1000 authError
               | Inr st' \<Rightarrow>
                   \<lparr>run_state = authReducer s1 (SET_USER (Some mockUser)), run_storage = st',
                    run_waited = 1000, run_thrown = None\<rparr>))"

text \<open>A stand-in for \<^verbatim>\<open>isValidEmail\<close> in the concrete evaluations: it asks for an
  \<open>@\<close> in the string.\<close>

definition example_isValidEmail :: "string \<Rightarrow> bool" where
  "example_isValidEmail e = (CHR ''@'' \<in> set e)"

section \<open>The order history\<close>

datatype order_status = OrderCompleted | OrderProcessing | OrderFailed

fun order_status_text :: "order_status \<Rightarrow> string" where
  "order_status_text OrderCompleted = ''completed''"
| "order_status_text OrderProcessing = ''processing''"
| "order_status_text OrderFailed = ''failed''"

text \<open>\<^verbatim>\<open>interface Order\<close> of the orders page, its fields with a prefix.\<close>

record order =
  order_id :: string
  order_transactionId :: "string option"
  order_items :: "line_item list"
  order_total :: number
  order_paymentMethod :: PaymentMethod
  order_date :: date
  order_status :: order_status

definition line_item_json :: "line_item \<Rightarrow> json" where
  "line_item_json li =
     JObj [(''id'', JStr (li_id li)), (''title'', JStr (li_title li)),
           (''price'', num_json (li_price li)),
           (''quantity'', num_json (li_quantity li))]"

definition order_json :: "platform \<Rightarrow> order \<Rightarrow> json" where
  "order_json pf ord =
     JObj ([(''id'', JStr (order_id ord))]
           @ (case order_transactionId ord of None \<Rightarrow> []
              | Some t \<Rightarrow> [(''transactionId'', JStr t)])
           @ [(''items'', JArr (map line_item_json (order_items ord))),
              (''total'', num_json (order_total ord)),
              (''paymentMethod'', JStr (method_text (order_paymentMethod ord))),
              (''date'', date_json pf (order_date ord)),
              (''status'', JStr (order_status_text (order_status ord)))])"

text \<open>
  The new order of the effect: the identifier from the clock, the properties of the order
  data that the checkout passed, and the status, which is written last and is
  \<^verbatim>\<open>'completed'\<close> whatever the data say.
\<close>

definition newOrder :: "int \<Rightarrow> order_data \<Rightarrow> order" where
  "newOrder now od =
     \<lparr>order_id = ''order_'' @ decimal now,
      order_transactionId = od_transactionId od,
      order_items = od_items od,
      order_total = od_total od,
      order_paymentMethod = od_paymentMethod od,
      order_date = od_date od,
      order_status = OrderCompleted\<rparr>"

text \<open>
  The list that the page holds: the order made in this visit, and the values parsed from
  the storage, which the code uses as they are.
\<close>

datatype order_entry = Fresh order | Loaded json

text \<open>The elements that the spread \<^verbatim>\<open>...existingOrders\<close> yields: those of an array, the
  characters of a string; any other parsed value is not iterable.\<close>

fun spread :: "json \<Rightarrow> js_error + json list" where
  "spread (JArr xs) = Inr xs"
| "spread (JStr s) = Inr (map (\<lambda>c. JStr [c]) s)"
| "spread j = Inl TypeError"

text \<open>
  The order-loading effect of the orders page. Its errors are not caught: the SyntaxError
  of \<^verbatim>\<open>JSON.parse\<close>, the TypeError of spreading a value that is not iterable, the failure
  of \<^verbatim>\<open>setItem\<close>, and, without order data, the TypeError that rendering raises for a
  parsed value that is not a list (a value whose \<^verbatim>\<open>length\<close> is 0 is rendered as the
  empty history).
\<close>

definition existingOrders :: "storage \<Rightarrow> js_error + json" where
  "existingOrders st =
     (case getItem st ORDERS_KEY of
        None \<Rightarrow> Inr (JArr [])
      | Some savedOrders \<Rightarrow>
          if stored_truthy savedOrders then JSON_parse savedOrders else Inr (JArr []))"

definition ordersEffect ::
  "platform \<Rightarrow> int \<Rightarrow> storage \<Rightarrow> order_data option \<Rightarrow> js_error + (order_entry list \<times> storage)" where
  "ordersEffect pf now st orderData =
     (case existingOrders st of
        Inl e \<Rightarrow> Inl e
      | Inr existing \<Rightarrow>
          (case orderData of
             Some od \<Rightarrow>
               (case spread existing of
                  Inl e \<Rightarrow> Inl e
                | Inr xs \<Rightarrow>
                    (case setItem st ORDERS_KEY (Json (JArr (order_json pf (newOrder now od) # xs))) of
                       Inl e \<Rightarrow> Inl e
                     | Inr st' \<Rightarrow> Inr (Fresh (newOrder now od) # map Loaded xs, st')))
           | None \<Rightarrow>
               (case existing of
                  JArr xs \<Rightarrow> Inr (map Loaded xs, st)
                | JStr s \<Rightarrow> if s = [] then Inr ([], st) else Inl TypeError
                | JObj fs \<Rightarrow>
                    if map_of fs ''length'' = Some (JNum (Fin 0)) then Inr ([], st)
                    else Inl TypeError
                | _ \<Rightarrow> Inl TypeError)))"

text \<open>The two operations of the order history, and a sequence of recordings.\<close>

definition recordOrder ::
  "platform \<Rightarrow> int \<Rightarrow> order_data \<Rightarrow> storage \<Rightarrow> js_error + (order_entry list \<times> storage)" where
  "recordOrder pf now od st = ordersEffect pf now st (Some od)"

definition listOrders :: "platform \<Rightarrow> int \<Rightarrow> storage \<Rightarrow> js_error + order_entry list" where
  "listOrders pf now st =
     (case ordersEffect pf now st None of Inl e \<Rightarrow> Inl e | Inr (shown, st') \<Rightarrow> Inr shown)"

fun recordOrders :: "platform \<Rightarrow> (int \<times> order_data) list \<Rightarrow> storage \<Rightarrow> js_error + storage" where
  "recordOrders pf [] st = Inr st"
| "recordOrders pf ((now, od) # rest) st =
     (case recordOrder pf now od st of
        Inl e \<Rightarrow> Inl e
      | Inr (shown, st') \<Rightarrow> recordOrders pf rest st')"

text \<open>The persisted order list, when the storage holds one: no entry (or the empty
  string) stands for the empty list.\<close>

definition persistedOrders :: "storage \<Rightarrow> json list option" where
  "persistedOrders st =
     (case getItem st ORDERS_KEY of
        None \<Rightarrow> Some []
      | Some (Json (JArr xs)) \<Rightarrow> Some xs
      | Some (Json j) \<Rightarrow> None
      | Some (Garbage s) \<Rightarrow> if s = [] then Some [] else None)"

definition example_order_data :: "string \<Rightarrow> order_data" where
  "example_order_data t =
     \<lparr>od_transactionId = Some t,
      od_items = [\<lparr>li_id = ''n1'', li_title = ''Calculus notes'', li_price = Fin 5,
                   li_quantity = Fin 1\<rparr>],
      od_total = Fin (11 / 2),
      od_paymentMethod = STRIPE,
      od_date = Date 0\<rparr>"

text \<open>A persisted cart value is corrupted when it is not the text of an array: it does
  not parse, or it parses to another value.\<close>

definition corrupted :: "stored \<Rightarrow> bool" where
  "corrupted t =
     (case t of Garbage s \<Rightarrow> True | Json j \<Rightarrow> (case j of JArr xs \<Rightarrow> False | _ \<Rightarrow> True))"

definition storage_with :: "string \<Rightarrow> stored \<Rightarrow> storage" where
  "storage_with k v = empty_storage\<lparr>entries := (entries empty_storage)(k \<mapsto> v)\<rparr>"

text \<open>Reading a property of a parsed value: only an object has properties here.\<close>

definition json_field :: "json \<Rightarrow> string \<Rightarrow> json option" where
  "json_field j k = (case j of JObj fs \<Rightarrow> map_of fs k | _ \<Rightarrow> None)"

section \<open>Properties of the rounding\<close>

lemma bit_length_bounds:
  "0 < n \<Longrightarrow> 2 ^ (bit_length n - 1) \<le> n \<and> n < 2 ^ bit_length n"
proof (induction n rule: bit_length.induct)
  case (1 n)
  show ?case
  proof (cases "n div 2 = 0")
    case True
    with 1 have "n = 1" by (simp add: div_eq_0_iff) 
    then show ?thesis by (simp add: bit_length.simps[of "Suc 0"] bit_length.simps[of 0])
  next
    case False
    with 1 have IH: "2 ^ (bit_length (n div 2) - 1) \<le> n div 2" "n div 2 < 2 ^ bit_length (n div 2)"
      by simp_all
    have pos: "0 < bit_length (n div 2)"
      using False by (simp add: bit_length.simps[of "n div 2"])
    have bl: "bit_length n = Suc (bit_length (n div 2))"
      using 1 by (simp add: bit_length.simps[of n])
    from IH(1) have "2 * 2 ^ (bit_length (n div 2) - 1) \<le> n" by linarith
    moreover have "2 * 2 ^ (bit_length (n div 2) - 1) = (2::nat) ^ bit_length (n div 2)"
      using pos by (cases "bit_length (n div 2)") simp_all
    moreover from IH(2) have "n < 2 * 2 ^ bit_length (n div 2)" by linarith
    ultimately show ?thesis by (simp add: bl)
  qed
qed

lemma pow2_add: "(2::rat) powi (a + b) = 2 powi a * 2 powi b"
  by (simp add: power_int_add)

lemma pow2_less_imp:
  assumes "(2::rat) powi m < 2 powi n"
  shows "m < n"
proof (rule ccontr)
  assume "\<not> m < n"
  then have "(2::rat) powi n \<le> 2 powi m"
    by (intro power_int_increasing) simp_all
  with assms show False by simp
qed

lemma exponent_of_bounds:
  assumes "0 < a"
  shows "2 powi (exponent_of a) \<le> a \<and> a < 2 powi (exponent_of a + 1)"
proof -
  obtain n d where nd: "quotient_of a = (n, d)" by (cases "quotient_of a")
  then have d: "0 < d" and a: "a = of_int n / of_int d"
    using quotient_of_denom_pos quotient_of_div by blast+
  with assms have n: "0 < n" by (simp add: zero_less_divide_iff)
  define bn where "bn = bit_length (nat n)"
  define bd where "bd = bit_length (nat d)"
  define k where "k = int bn - int bd"
  from bit_length_bounds[of "nat n"] n
  have n1: "2 ^ (bn - 1) \<le> nat n" and n2: "nat n < 2 ^ bn" by (simp_all add: bn_def)
  from bit_length_bounds[of "nat d"] d
  have d1: "2 ^ (bd - 1) \<le> nat d" and d2: "nat d < 2 ^ bd" by (simp_all add: bd_def)
  have bnpos: "0 < bn" using n2 n by (cases bn) auto
  have bdpos: "0 < bd" using d2 d by (cases bd) auto
  have rn1: "(2::rat) powi (int bn - 1) \<le> of_int n"
  proof -
    have "(2::rat) powi (int bn - 1) = 2 ^ (bn - 1)"
      using bnpos by (simp add: power_int_def of_nat_diff nat_diff_distrib)
    also have "\<dots> = of_nat (2 ^ (bn - 1))" by simp
    also have "\<dots> \<le> of_nat (nat n)" using n1 of_nat_le_iff by blast
    also have "\<dots> = of_int n" using n by simp
    finally show ?thesis .
  qed
  have rn2: "of_int n < (2::rat) powi (int bn)"
  proof -
    have "of_int n = (of_nat (nat n) :: rat)" using n by simp
    also have "\<dots> < of_nat (2 ^ bn)" using n2 of_nat_less_iff by blast
    also have "\<dots> = 2 powi (int bn)" by simp
    finally show ?thesis .
  qed
  have rd1: "(2::rat) powi (int bd - 1) \<le> of_int d"
  proof -
    have "(2::rat) powi (int bd - 1) = 2 ^ (bd - 1)"
      using bdpos by (simp add: power_int_def of_nat_diff nat_diff_distrib)
    also have "\<dots> = of_nat (2 ^ (bd - 1))" by simp
    also have "\<dots> \<le> of_nat (nat d)" using d1 of_nat_le_iff by blast
    also have "\<dots> = of_int d" using d by simp
    finally show ?thesis .
  qed
  have rd2: "of_int d < (2::rat) powi (int bd)"
  proof -
    have "of_int d = (of_nat (nat d) :: rat)" using d by simp
    also have "\<dots> < of_nat (2 ^ bd)" using d2 of_nat_less_iff by blast
    also have "\<dots> = 2 powi (int bd)" by simp
    finally show ?thesis .
  qed
  have dpos: "(0::rat) < of_int d" using d by simp
  have lower: "2 powi (k - 1) \<le> a"
  proof -
    have "(2::rat) powi (k - 1) * of_int d \<le> 2 powi (k - 1) * 2 powi (int bd)"
      using rd2 by (simp add: mult_left_mono)
    also have "\<dots> = 2 powi (k - 1 + int bd)"
      by (rule pow2_add[symmetric])
    also have "\<dots> = 2 powi (int bn - 1)"
      by (simp only: k_def) simp
    also have "\<dots> \<le> of_int n" by (rule rn1)
    finally show ?thesis using dpos by (simp add: a pos_le_divide_eq)
  qed
  have upper: "a < 2 powi (k + 1)"
  proof -
    have "of_int n < (2::rat) powi (int bn)" by (rule rn2)
    also have "\<dots> = 2 powi (k + 1 + (int bd - 1))"
      by (simp only: k_def) simp
    also have "\<dots> = 2 powi (k + 1) * 2 powi (int bd - 1)"
      by (rule pow2_add)
    also have "\<dots> \<le> 2 powi (k + 1) * of_int d"
      using rd1 by (simp add: mult_left_mono)
    finally show ?thesis using dpos by (simp add: a pos_divide_less_eq)
  qed
  have e: "exponent_of a = (if 2 powi k \<le> a then k else k - 1)"
    by (simp add: exponent_of_def Let_def nd k_def bn_def bd_def)
  show ?thesis
  proof (cases "2 powi k \<le> a")
    case True
    with e upper show ?thesis by simp
  next
    case False
    with e lower show ?thesis by simp
  qed
qed

lemma exponent_of_unique:
  assumes "0 < a" "2 powi e \<le> a" "a < 2 powi (e + 1)"
  shows "exponent_of a = e"
proof -
  from exponent_of_bounds[OF assms(1)]
  have b: "2 powi (exponent_of a) \<le> a" "a < 2 powi (exponent_of a + 1)" by simp_all
  have "(2::rat) powi e < 2 powi (exponent_of a + 1)"
    using assms(2) b(2) by simp
  then have "e < exponent_of a + 1"
    by (rule pow2_less_imp)
  moreover have "(2::rat) powi (exponent_of a) < 2 powi (e + 1)"
    using assms(3) b(1) by simp
  then have "exponent_of a < e + 1"
    by (rule pow2_less_imp)
  ultimately show ?thesis by simp
qed

lemma round_half_even_of_int: "round_half_even (of_int m) = m"
  by (simp add: round_half_even_def)

lemma round_half_even_near:
  assumes "\<bar>x - of_int m\<bar> < 1 / 2"
  shows "round_half_even x = m"
proof -
  from assms have lo: "of_int m - 1 / 2 < x" and hi: "x < of_int m + 1 / 2" by linarith+
  show ?thesis
  proof (cases "of_int m \<le> x")
    case True
    with hi have "\<lfloor>x\<rfloor> = m" by (simp add: floor_unique)
    with hi show ?thesis by (simp add: round_half_even_def)
  next
    case False
    with lo have f: "\<lfloor>x\<rfloor> = m - 1" by (intro floor_unique) simp_all
    with lo have "1 / 2 < x - of_int \<lfloor>x\<rfloor>" by simp
    with f show ?thesis by (simp add: round_half_even_def)
  qed
qed

lemma round_double_eval:
  assumes "q \<noteq> 0" and "2 powi e \<le> \<bar>q\<bar>" and "\<bar>q\<bar> < 2 powi (e + 1)"
    and "- 1022 \<le> e" and "e < 1023"
    and "\<bar>\<bar>q\<bar> / 2 powi (e - 52) - of_int m\<bar> < 1 / 2"
  shows "round_double q = Fin (sgn q * of_int m * 2 powi (e - 52))"
proof -
  from assms(1) have "0 < \<bar>q\<bar>" by simp
  then have e: "exponent_of \<bar>q\<bar> = e"
    using assms(2,3) by (rule exponent_of_unique)
  with assms(4) have m: "max (exponent_of \<bar>q\<bar>) (- 1022) = e" by simp
  from assms(6) have "round_half_even (\<bar>q\<bar> / 2 powi (e - 52)) = m"
    by (rule round_half_even_near)
  with assms(1,5) m show ?thesis
    by (simp add: round_double_def Let_def)
qed

lemma lit_15_99: "lit (1599 / 100) = Fin (9001569755206779 / 562949953421312)"
  using round_double_eval[of "1599 / 100" 3 9001569755206779]
  by (simp add: lit_def)

lemma lit_0_1: "lit (1 / 10) = Fin (3602879701896397 / 36028797018963968)"
  using round_double_eval[of "1 / 10" "- 4" 7205759403792794]
  by (simp add: lit_def)

lemma mul_15_99_0_1:
  "num_mul (lit (1599 / 100)) (lit (1 / 10)) = Fin (450078487760339 / 281474976710656)"
  using round_double_eval[of "9001569755206779 / 562949953421312 * (3602879701896397 / 36028797018963968)" 0 7201255804165424]
  by (simp add: lit_15_99 lit_0_1)


lemma lit_1_1: "lit (11 / 10) = Fin (2476979795053773 / 2251799813685248)"
  using round_double_eval[of "11 / 10" 0 4953959590107546]
  by (simp add: lit_def)

lemma lit_1_599: "lit (1599 / 1000) = Fin (7201255804165423 / 4503599627370496)"
  using round_double_eval[of "1599 / 1000" 0 7201255804165423]
  by (simp add: lit_def)

lemma lit_17_589: "lit (17589 / 1000) = Fin (309428960335233 / 17592186044416)"
  using round_double_eval[of "17589 / 1000" 4 4950863365363728]
  by (simp add: lit_def)

lemma mul_15_99_1_1:
  "num_mul (lit (1599 / 100)) (lit (11 / 10)) = Fin (4950863365363729 / 281474976710656)"
  using round_double_eval[of "9001569755206779 / 562949953421312 * (2476979795053773 / 2251799813685248)" 4 4950863365363729]
  by (simp add: lit_15_99 lit_1_1)

lemma lit_0: "lit 0 = Fin 0"
  by (simp add: lit_def round_double_def)

lemma num_of_int_1: "num_of_int 1 = Fin 1"
  using round_double_eval[of 1 0 4503599627370496]
  by (simp add: num_of_int_def)

lemma lit_1: "lit 1 = Fin 1"
  using round_double_eval[of 1 0 4503599627370496]
  by (simp add: lit_def)

lemma mul_15_99_1: "num_mul (lit (1599 / 100)) (Fin 1) = lit (1599 / 100)"
  using round_double_eval[of "9001569755206779 / 562949953421312" 3 9001569755206779]
  by (simp add: lit_15_99)

lemma add_0_15_99: "num_add (lit 0) (lit (1599 / 100)) = lit (1599 / 100)"
  using round_double_eval[of "9001569755206779 / 562949953421312" 3 9001569755206779]
  by (simp add: lit_15_99 lit_0)

lemma pow2_pos: "(0::rat) < 2 powi e"
  by simp

lemma round_double_times_4:
  assumes rep: "round_double q = Fin q" and pos: "0 < q" and lt: "q < 1"
  shows "round_double (q * 4) = Fin (q * 4)"
proof -
  define E where "E = exponent_of q"
  define e where "e = max E (- 1022)"
  define m where "m = round_half_even (q / 2 powi (e - 52))"
  from exponent_of_bounds[OF pos]
  have E1: "2 powi E \<le> q" and E2: "q < 2 powi (E + 1)" by (simp_all add: E_def)
  from E1 lt have "(2::rat) powi E < 2 powi 0" by simp
  then have Eneg: "E < 0" by (rule pow2_less_imp)
  then have eneg: "e < 0" by (simp add: e_def)
  have q_eq: "q = of_int m * 2 powi (e - 52)"
    using rep pos eneg
    by (simp add: round_double_def Let_def E_def[symmetric] e_def[symmetric] m_def[symmetric]
        split: if_splits)
  have four: "(4::rat) = 2 powi 2" by simp
  have "2 powi (E + 2) \<le> q * 4"
  proof -
    have "(2::rat) powi (E + 2) = 2 powi E * 2 powi 2" by (rule pow2_add)
    moreover have "2 powi E * 4 \<le> q * 4" using E1 by simp
    ultimately show ?thesis by simp
  qed
  moreover have "q * 4 < 2 powi (E + 2 + 1)"
  proof -
    have "E + 2 + 1 = (E + 1) + 2" by simp
    then have "(2::rat) powi (E + 2 + 1) = 2 powi (E + 1) * 2 powi 2"
      by (simp only: pow2_add)
    moreover have "q * 4 < 2 powi (E + 1) * 4" using E2 by simp
    ultimately show ?thesis by simp
  qed
  moreover have "0 < q * 4" using pos by simp
  ultimately have E': "exponent_of (q * 4) = E + 2"
    by (intro exponent_of_unique)
  define e' where "e' = max (E + 2) (- 1022)"
  define d where "d = e + 2 - e'"
  have d: "0 \<le> d" "d \<le> 2" by (simp_all add: d_def e_def e'_def)
  have "q * 4 / 2 powi (e' - 52) = of_int m * (2 powi (e - 52) * 2 powi 2 / 2 powi (e' - 52))"
    by (subst q_eq) simp
  also have "2 powi (e - 52) * 2 powi 2 / (2::rat) powi (e' - 52) = 2 powi d"
    by (simp add: d_def power_int_diff power_int_add)
  also have "(2::rat) powi d = of_int (2 ^ nat d)"
    using d by (simp add: power_int_def)
  finally have scaled: "q * 4 / 2 powi (e' - 52) = of_int (m * 2 ^ nat d)"
    by simp
  have rhe: "round_half_even (q * 4 / 2 powi (e' - 52)) = m * 2 ^ nat d"
    unfolding scaled by (rule round_half_even_of_int)
  have e'small: "e' \<le> 1" using Eneg by (simp add: e'_def)
  have "round_double (q * 4) = Fin (of_int (m * 2 ^ nat d) * 2 powi (e' - 52))"
    using pos e'small rhe
    by (simp add: round_double_def Let_def E' e'_def[symmetric] abs_mult)
  also have "of_int (m * 2 ^ nat d) * 2 powi (e' - 52) = q * 4 / 2 powi (e' - 52) * 2 powi (e' - 52)"
    by (simp only: scaled)
  also have "\<dots> = q * 4" by simp
  finally show ?thesis .
qed

lemma lit_2000: "lit 2000 = Fin 2000"
  using round_double_eval[of 2000 10 8796093022208000]
  by (simp add: lit_def)

lemma lit_3000: "lit 3000 = Fin 3000"
  using round_double_eval[of 3000 11 6597069766656000]
  by (simp add: lit_def)

lemma lit_0_95: "lit (19 / 20) = Fin (4278419646001971 / 4503599627370496)"
  using round_double_eval[of "19 / 20" "- 1" 8556839292003942]
  by (simp add: lit_def)

lemma num_of_int_4: "num_of_int 4 = Fin 4"
  using round_double_eval[of 4 2 4503599627370496]
  by (simp add: num_of_int_def)

lemma round_double_half: "round_double (1 / 2) = Fin (1 / 2)"
  using round_double_eval[of "1 / 2" "- 1" 4503599627370496]
  by simp

lemma round_double_0: "round_double 0 = Fin 0"
  by (simp add: round_double_def)

lemma pow2_le_imp:
  assumes "(2::rat) powi m \<le> 2 powi n"
  shows "m \<le> n"
proof (rule ccontr)
  assume "\<not> m \<le> n"
  then have "(2::rat) powi n < 2 powi m"
    by (intro power_int_strict_increasing) simp_all
  with assms show False by simp
qed

lemma round_half_even_tie:
  "round_half_even (of_int m + 1 / 2) = (if even m then m else m + 1)"
proof -
  have "\<lfloor>of_int m + 1 / 2 :: rat\<rfloor> = m"
    by (intro floor_unique) simp_all
  then show ?thesis by (simp add: round_half_even_def)
qed

lemma round_double_eval_tie:
  assumes "q \<noteq> 0" and "2 powi e \<le> \<bar>q\<bar>" and "\<bar>q\<bar> < 2 powi (e + 1)"
    and "- 1022 \<le> e" and "e < 1023"
    and "\<bar>q\<bar> / 2 powi (e - 52) = of_int m + 1 / 2" and "even m"
  shows "round_double q = Fin (sgn q * of_int m * 2 powi (e - 52))"
proof -
  from assms(1) have "0 < \<bar>q\<bar>" by simp
  then have e: "exponent_of \<bar>q\<bar> = e"
    using assms(2,3) by (rule exponent_of_unique)
  with assms(4) have m: "max (exponent_of \<bar>q\<bar>) (- 1022) = e" by simp
  have "round_half_even (\<bar>q\<bar> / 2 powi (e - 52)) = m"
    unfolding assms(6) using assms(7) by (simp add: round_half_even_tie)
  with assms(1,5) m show ?thesis
    by (simp add: round_double_def Let_def)
qed

lemma round_double_int:
  assumes "0 < k" and "k \<le> 2 ^ 53"
  shows "round_double (of_int k) = Fin (of_int k)"
proof -
  define a where "a = (of_int k :: rat)"
  define E where "E = exponent_of a"
  have apos: "0 < a" using assms(1) by (simp add: a_def)
  from exponent_of_bounds[OF apos]
  have E1: "2 powi E \<le> a" and E2: "a < 2 powi (E + 1)" by (simp_all add: E_def)
  have "(1::rat) \<le> a" using assms(1) by (simp add: a_def)
  with E2 have "(2::rat) powi 0 < 2 powi (E + 1)" by simp
  then have Enonneg: "0 \<le> E" using pow2_less_imp by fastforce
  have a53: "a \<le> 2 powi 53"
  proof -
    have "(of_int k :: rat) \<le> of_int (2 ^ 53)" using assms(2) by (simp only: of_int_le_iff)
    then show ?thesis by (simp add: a_def)
  qed
  with E1 have "(2::rat) powi E \<le> 2 powi 53" by simp
  then have E53: "E \<le> 53" by (rule pow2_le_imp)
  have mx: "max E (- 1022) = E" using Enonneg by simp
  have "\<exists>m. a / 2 powi (E - 52) = of_int m"
  proof (cases "E \<le> 52")
    case True
    have "a / 2 powi (E - 52) = a * 2 powi (52 - E)"
      by (simp add: power_int_diff field_simps)
    also have "(2::rat) powi (52 - E) = of_int (2 ^ nat (52 - E))"
      using True by (simp add: power_int_def)
    finally have "a / 2 powi (E - 52) = of_int (k * 2 ^ nat (52 - E))"
      by (simp add: a_def)
    then show ?thesis ..
  next
    case False
    with E53 have E: "E = 53" by simp
    with E1 a53 have "a = 2 powi 53" by simp
    then have "a / 2 powi (E - 52) = of_int (2 ^ 52)" by (simp add: E)
    then show ?thesis ..
  qed
  then obtain m where m: "a / 2 powi (E - 52) = of_int m" ..
  have rhe: "round_half_even (a / 2 powi (E - 52)) = m"
    unfolding m by (rule round_half_even_of_int)
  have restore: "of_int m * 2 powi (E - 52) = a"
    using m by (simp add: field_simps)
  have "a \<noteq> 0" "\<bar>a\<bar> = a" "sgn a = 1" "\<not> a < 0" using apos by simp_all
  then have "round_double a = Fin (of_int m * 2 powi (E - 52))"
    using E53 rhe by (simp add: round_double_def Let_def E_def[symmetric] mx)
  then show ?thesis by (simp add: restore a_def[symmetric])
qed

lemma whole_add:
  assumes "0 < a + b" and "a + b \<le> 2 ^ 53"
  shows "num_add (whole a) (whole b) = whole (a + b)"
  using round_double_int[OF assms] by (simp add: whole_def)

lemma whole_0: "lit 0 = whole 0"
  by (simp add: lit_0 whole_def)

lemma whole_1: "lit 1 = whole 1"
  by (simp add: lit_1 whole_def)

lemma quantity_or_1_whole:
  "n \<noteq> 0 \<Longrightarrow> quantity_or_1 (Some (whole n)) = whole n"
  by (simp add: quantity_or_1_def whole_def)

lemma round_double_2_53_plus_1:
  "round_double 9007199254740993 = Fin 9007199254740992"
  using round_double_eval_tie[of 9007199254740993 53 4503599627370496]
  by simp



section \<open>Properties of the cart store\<close>

lemma findIndex_None_iff: "findIndex P xs = None \<longleftrightarrow> (\<forall>x \<in> set xs. \<not> P x)"
  by (induction xs) auto

lemma findIndex_Some:
  "findIndex P xs = Some i \<Longrightarrow> i < length xs \<and> P (xs ! i)"
proof (induction xs arbitrary: i)
  case Nil
  then show ?case by simp
next
  case (Cons x xs)
  then show ?case by (cases "P x") auto
qed

lemma findIndex_distinct:
  assumes "distinct (map item_id xs)" and "i < length xs" and "item_id (xs ! i) = ident"
  shows "findIndex (\<lambda>x. item_id x = ident) xs = Some i"
proof -
  from assms(2,3) have "\<exists>x \<in> set xs. item_id x = ident"
    using nth_mem by blast
  then obtain j where j: "findIndex (\<lambda>x. item_id x = ident) xs = Some j"
    using findIndex_None_iff[of "\<lambda>x. item_id x = ident" xs] by fastforce
  from findIndex_Some[OF j] have "j < length xs" "item_id (xs ! j) = ident"
    by simp_all
  with assms have "j = i"
    using nth_eq_iff_index_eq[of "map item_id xs" j i] by simp
  with j show ?thesis by simp
qed

lemma map_item_id_update:
  "i < length xs \<Longrightarrow> map item_id (xs[i := (xs ! i)\<lparr>quantity := q\<rparr>]) = map item_id xs"
  by (simp add: map_update list_update_same_conv)

lemma items_addItem_present:
  assumes "findIndex (\<lambda>x. item_id x = item_id item) (items s) = Some i"
  shows "items (addItem item now s) =
         (items s)[i := (items s ! i)
            \<lparr>quantity := Some (num_add (quantity_or_1 (quantity (items s ! i))) (lit 1))\<rparr>]"
  using assms by (simp add: addItem_def)

lemma items_addItem_absent:
  assumes "findIndex (\<lambda>x. item_id x = item_id item) (items s) = None"
  shows "items (addItem item now s)
         = items s @ [item\<lparr>addedAt := Date now, quantity := Some (lit 1)\<rparr>]"
  using assms by (simp add: addItem_def)

lemma cart_inv_add:
  assumes "cart_inv (items s)"
  shows "cart_inv (items (addItem item now s))"
proof (cases "findIndex (\<lambda>x. item_id x = item_id item) (items s)")
  case None
  then have "item_id item \<notin> item_id ` set (items s)"
    by (auto simp: findIndex_None_iff)
  with assms show ?thesis
    by (simp add: items_addItem_absent[OF None] cart_inv_def)
next
  case (Some i)
  from findIndex_Some[OF Some] have i: "i < length (items s)" by simp
  have "\<exists>q'. quantity x = Some q'"
    if "x \<in> set ((items s)[i := (items s ! i)\<lparr>quantity := Some q\<rparr>])" for x q
  proof -
    from that set_update_subset_insert
    have "x = (items s ! i)\<lparr>quantity := Some q\<rparr> \<or> x \<in> set (items s)"
      by fastforce
    then show ?thesis
      using assms by (auto simp: cart_inv_def)
  qed
  then show ?thesis
    using assms i by (simp add: items_addItem_present[OF Some] cart_inv_def map_item_id_update)
qed

lemma cart_inv_remove:
  assumes "cart_inv (items s)"
  shows "cart_inv (items (removeItem ident s))"
  using assms by (auto simp: removeItem_def cart_inv_def distinct_map_filter)

lemma map_item_id_set_quantity:
  "map item_id (map (\<lambda>item. if item_id item = ident then item\<lparr>quantity := q\<rparr> else item) xs)
   = map item_id xs"
  by (induction xs) auto

lemma cart_inv_update:
  assumes "cart_inv (items s)"
  shows "cart_inv (items (updateItemQuantity ident qty s))"
proof (cases "num_le qty (lit 0)")
  case True
  with assms show ?thesis
    by (simp add: updateItemQuantity_def cart_inv_remove)
next
  case False
  with assms show ?thesis
    using map_item_id_set_quantity[of ident "Some (math_max (lit 1) qty)" "items s"]
    by (auto simp: updateItemQuantity_def cart_inv_def simp del: map_map)
qed

lemma cart_inv_clear: "cart_inv (items (clearCart s))"
  by (simp add: clearCart_def cart_inv_def)

lemma cart_inv_step:
  "cart_inv (items s) \<Longrightarrow> cart_inv (items (cart_step s c))"
  by (cases c) (simp_all add: cart_inv_add cart_inv_remove cart_inv_update cart_inv_clear)

lemma cart_inv_foldl:
  "cart_inv (items s) \<Longrightarrow> cart_inv (items (foldl cart_step s cs))"
  by (induction cs arbitrary: s) (simp_all add: cart_inv_step)

lemma cart_inv_run: "cart_inv (items (run_cart cs))"
  unfolding run_cart_def by (rule cart_inv_foldl) (simp add: initialState_def cart_inv_def)

subsection \<open>Whole-number quantities\<close>

lemma quantity_int_whole: "quantity item = Some (whole q) \<Longrightarrow> quantity_int item = q"
  by (simp add: quantity_int_def whole_def)

lemma quantity_int_set [simp]: "quantity_int (item\<lparr>quantity := Some (whole q)\<rparr>) = q"
  by (simp add: quantity_int_def whole_def)

lemma whole_inv_nonneg:
  "whole_inv B its \<Longrightarrow> x \<in> set its \<Longrightarrow> 1 \<le> quantity_int x"
  by (auto simp: whole_inv_def quantity_int_whole)

lemma sum_list_map_update_int:
  fixes f :: "'a \<Rightarrow> int"
  shows "i < length xs \<Longrightarrow> sum_list (map f (xs[i := y])) = sum_list (map f xs) - f (xs ! i) + f y"
proof (induction xs arbitrary: i)
  case Nil
  then show ?case by simp
next
  case (Cons x xs)
  then show ?case by (cases i) simp_all
qed

lemma nth_le_sum_list_int:
  fixes f :: "'a \<Rightarrow> int"
  assumes "\<forall>x \<in> set xs. 0 \<le> f x" and "i < length xs"
  shows "f (xs ! i) \<le> sum_list (map f xs)"
  using assms
proof (induction xs arbitrary: i)
  case Nil
  then show ?case by simp
next
  case (Cons x xs)
  have rest: "0 \<le> sum_list (map f xs)"
    using Cons.prems(1) by (intro sum_list_nonneg) auto
  show ?case
  proof (cases i)
    case 0
    with rest show ?thesis by simp
  next
    case (Suc j)
    with Cons.prems have "f (xs ! j) \<le> sum_list (map f xs)"
      by (intro Cons.IH) simp_all
    moreover have "0 \<le> f x" using Cons.prems(1) by simp
    ultimately show ?thesis using Suc by simp
  qed
qed

lemma sum_list_filter_le_int:
  fixes f :: "'a \<Rightarrow> int"
  assumes "\<forall>x \<in> set xs. 0 \<le> f x"
  shows "sum_list (map f (filter P xs)) \<le> sum_list (map f xs)"
  using assms by (induction xs) auto

lemma sum_set_quantity_le:
  assumes "distinct (map item_id xs)" and "\<forall>x \<in> set xs. 0 \<le> quantity_int x" and "0 \<le> n"
  shows "sum_list (map quantity_int
           (map (\<lambda>item. if item_id item = ident then item\<lparr>quantity := Some (whole n)\<rparr> else item) xs))
         \<le> sum_list (map quantity_int xs) + n"
  using assms
proof (induction xs)
  case Nil
  then show ?case by simp
next
  case (Cons x xs)
  show ?case
  proof (cases "item_id x = ident")
    case True
    from Cons.prems(1) have "item_id x \<notin> item_id ` set xs" by simp
    with True have "\<forall>y \<in> set xs. item_id y \<noteq> ident" by (metis imageI)
    then have "map (\<lambda>item. if item_id item = ident then item\<lparr>quantity := Some (whole n)\<rparr> else item) xs = xs"
      by (intro map_idI) simp
    with True Cons.prems(2) show ?thesis by simp
  next
    case False
    with Cons show ?thesis by simp
  qed
qed

lemma floor_number_whole: "floor_number (whole n) = n"
  by (simp add: whole_def)

lemma whole_number_cases:
  assumes "whole_number qty"
  obtains n where "qty = whole n" and "floor_number qty = n"
proof (cases qty)
  case (Fin r)
  with assms have "of_int \<lfloor>r\<rfloor> = r" by (simp only: whole_number.simps)
  then have "Fin r = whole \<lfloor>r\<rfloor>" by (simp only: whole_def)
  with Fin have "qty = whole \<lfloor>r\<rfloor>" "floor_number qty = \<lfloor>r\<rfloor>"
    by (simp_all add: floor_number_whole)
  then show thesis by (rule that)
next
  case PInf
  with assms show thesis by simp
next
  case NInf
  with assms show thesis by simp
next
  case NaN
  with assms show thesis by simp
qed

lemma num_le_whole_0: "num_le (whole n) (lit 0) \<longleftrightarrow> n \<le> 0"
  by (simp add: whole_def lit_0)

lemma math_max_1_whole: "1 \<le> n \<Longrightarrow> math_max (lit 1) (whole n) = whole n"
  by (auto simp: whole_def lit_1)

lemma whole_inv_add:
  assumes inv: "cart_inv (items s)" and w: "whole_inv B (items s)" and B: "B + 1 \<le> 2 ^ 53"
  shows "whole_inv (B + 1) (items (addItem item now s))"
proof (cases "findIndex (\<lambda>x. item_id x = item_id item) (items s)")
  case None
  have "\<exists>q. 1 \<le> q \<and> whole 1 = whole q"
    by (intro exI[of _ 1]) simp
  with w show ?thesis
    by (simp add: items_addItem_absent[OF None] whole_inv_def whole_1)
next
  case (Some i)
  from findIndex_Some[OF Some] have i: "i < length (items s)" by simp
  with w obtain q where q: "1 \<le> q" "quantity (items s ! i) = Some (whole q)"
    unfolding whole_inv_def by (meson nth_mem)
  have nonneg: "\<forall>x \<in> set (items s). 0 \<le> quantity_int x"
    using whole_inv_nonneg[OF w] by fastforce
  have "q = quantity_int (items s ! i)" using q by (simp add: quantity_int_whole)
  also have "\<dots> \<le> sum_list (map quantity_int (items s))"
    using nonneg i by (rule nth_le_sum_list_int)
  also have "\<dots> \<le> B" using w by (simp add: whole_inv_def)
  finally have "q + 1 \<le> 2 ^ 53" using B by simp
  with q have inc: "num_add (quantity_or_1 (quantity (items s ! i))) (lit 1) = whole (q + 1)"
    by (simp add: quantity_or_1_whole whole_1 whole_add)
  have its: "items (addItem item now s)
             = (items s)[i := (items s ! i)\<lparr>quantity := Some (whole (q + 1))\<rparr>]"
    by (simp add: items_addItem_present[OF Some] inc)
  have "\<exists>q'. 1 \<le> q' \<and> quantity x = Some (whole q')"
    if "x \<in> set ((items s)[i := (items s ! i)\<lparr>quantity := Some (whole (q + 1))\<rparr>])" for x
  proof -
    from that set_update_subset_insert
    have "x = (items s ! i)\<lparr>quantity := Some (whole (q + 1))\<rparr> \<or> x \<in> set (items s)"
      by fastforce
    then show ?thesis
    proof
      assume "x = (items s ! i)\<lparr>quantity := Some (whole (q + 1))\<rparr>"
      with q(1) have "1 \<le> q + 1 \<and> quantity x = Some (whole (q + 1))" by simp
      then show ?thesis ..
    next
      assume "x \<in> set (items s)"
      with w show ?thesis by (simp add: whole_inv_def)
    qed
  qed
  moreover have "sum_list (map quantity_int
                    ((items s)[i := (items s ! i)\<lparr>quantity := Some (whole (q + 1))\<rparr>])) \<le> B + 1"
    using w i q by (simp add: sum_list_map_update_int whole_inv_def quantity_int_whole)
  ultimately show ?thesis
    unfolding its whole_inv_def by blast
qed

lemma whole_inv_bound_nonneg:
  assumes "whole_inv B its"
  shows "0 \<le> B"
proof -
  have "0 \<le> sum_list (map quantity_int its)"
    using whole_inv_nonneg[OF assms] by (intro sum_list_nonneg) fastforce
  with assms show ?thesis by (simp add: whole_inv_def)
qed

lemma whole_inv_remove:
  assumes "whole_inv B (items s)"
  shows "whole_inv B (items (removeItem ident s))"
proof -
  have "\<forall>x \<in> set (items s). 0 \<le> quantity_int x"
    using whole_inv_nonneg[OF assms] by fastforce
  then have "sum_list (map quantity_int (filter (\<lambda>item. item_id item \<noteq> ident) (items s)))
             \<le> sum_list (map quantity_int (items s))"
    by (rule sum_list_filter_le_int)
  with assms show ?thesis
    by (auto simp: whole_inv_def removeItem_def)
qed

lemma whole_inv_mono: "whole_inv B its \<Longrightarrow> B \<le> B' \<Longrightarrow> whole_inv B' its"
  by (auto simp: whole_inv_def)

lemma whole_inv_update:
  assumes inv: "cart_inv (items s)" and w: "whole_inv B (items s)" and "whole_number qty"
  shows "whole_inv (B + max 0 (floor_number qty)) (items (updateItemQuantity ident qty s))"
proof -
  from assms(3) obtain n where n: "qty = whole n" "floor_number qty = n"
    by (rule whole_number_cases)
  show ?thesis
  proof (cases "n \<le> 0")
    case True
    then have "updateItemQuantity ident qty s = removeItem ident s"
      by (simp add: updateItemQuantity_def n num_le_whole_0)
    with True n w show ?thesis by (simp add: whole_inv_remove)
  next
    case False
    then have n1: "1 \<le> n" by simp
    have its: "items (updateItemQuantity ident qty s)
          = map (\<lambda>item. if item_id item = ident then item\<lparr>quantity := Some (whole n)\<rparr> else item)
              (items s)"
      using False n1 by (simp add: updateItemQuantity_def n num_le_whole_0 math_max_1_whole)
    have nonneg: "\<forall>x \<in> set (items s). 0 \<le> quantity_int x"
      using whole_inv_nonneg[OF w] by fastforce
    have "sum_list (map quantity_int
            (map (\<lambda>item. if item_id item = ident then item\<lparr>quantity := Some (whole n)\<rparr> else item)
               (items s)))
          \<le> sum_list (map quantity_int (items s)) + n"
      using inv nonneg n1 by (intro sum_set_quantity_le) (simp_all add: cart_inv_def)
    moreover have "sum_list (map quantity_int (items s)) \<le> B"
      using w by (simp add: whole_inv_def)
    moreover have "\<exists>q. 1 \<le> q \<and> quantity x = Some (whole q)"
      if "x \<in> set (map (\<lambda>item. if item_id item = ident then item\<lparr>quantity := Some (whole n)\<rparr> else item)
              (items s))" for x
    proof -
      from that obtain y where y: "y \<in> set (items s)"
        "x = (if item_id y = ident then y\<lparr>quantity := Some (whole n)\<rparr> else y)" by auto
      show ?thesis
      proof (cases "item_id y = ident")
        case True
        with y n1 have "1 \<le> n \<and> quantity x = Some (whole n)" by simp
        then show ?thesis ..
      next
        case False
        with y w show ?thesis by (simp add: whole_inv_def)
      qed
    qed
    ultimately show ?thesis
      unfolding its whole_inv_def using n n1 by auto
  qed
qed

lemma op_budget_nonneg: "0 \<le> op_budget c"
  by (cases c) simp_all

lemma whole_inv_step:
  assumes "cart_inv (items s)" and "whole_inv B (items s)" and "whole_op c"
    and "B + op_budget c \<le> 2 ^ 53"
  shows "whole_inv (B + op_budget c) (items (cart_step s c))"
proof (cases c)
  case (AddItem item now)
  with assms show ?thesis by (simp add: whole_inv_add)
next
  case (RemoveItem ident)
  with assms show ?thesis by (simp add: whole_inv_remove)
next
  case (UpdateItemQuantity ident qty)
  with assms show ?thesis by (simp add: whole_inv_update)
next
  case ClearCart
  with whole_inv_bound_nonneg[OF assms(2)] show ?thesis
    by (simp add: clearCart_def whole_inv_def)
qed

lemma whole_inv_foldl:
  assumes "cart_inv (items s)" and "whole_inv B (items s)" and "list_all whole_op cs"
    and "B + sum_list (map op_budget cs) \<le> 2 ^ 53"
  shows "whole_inv (B + sum_list (map op_budget cs)) (items (foldl cart_step s cs))"
  using assms
proof (induction cs arbitrary: s B)
  case Nil
  then show ?case by simp
next
  case (Cons c cs)
  have "0 \<le> sum_list (map op_budget cs)"
    by (intro sum_list_nonneg) (auto simp: op_budget_nonneg)
  with Cons.prems(4) have c: "B + op_budget c \<le> 2 ^ 53" by simp
  have "whole_inv (B + op_budget c) (items (cart_step s c))"
    using Cons.prems(1,2) _ c by (rule whole_inv_step) (use Cons.prems(3) in simp)
  moreover have "cart_inv (items (cart_step s c))"
    using Cons.prems(1) by (rule cart_inv_step)
  ultimately have "whole_inv (B + op_budget c + sum_list (map op_budget cs))
                     (items (foldl cart_step (cart_step s c) cs))"
    using Cons.prems(3,4) by (intro Cons.IH) (simp_all add: add.assoc)
  then show ?case by (simp add: add.assoc)
qed

lemma whole_inv_run:
  assumes "list_all whole_op ops" and "cart_budget ops \<le> 2 ^ 53"
  shows "whole_inv (cart_budget ops) (items (run_cart ops))"
proof -
  have "whole_inv (0 + sum_list (map op_budget ops)) (items (foldl cart_step initialState ops))"
    using assms by (intro whole_inv_foldl) (simp_all add: initialState_def cart_inv_def whole_inv_def cart_budget_def)
  then show ?thesis by (simp add: run_cart_def cart_budget_def)
qed

lemma foldl_whole_sum:
  assumes "\<forall>item \<in> set its. \<exists>q. 1 \<le> q \<and> quantity item = Some (whole q)"
    and "0 \<le> a" and "a + sum_list (map quantity_int its) \<le> 2 ^ 53"
  shows "foldl (\<lambda>sum item. num_add sum (quantity_or_1 (quantity item))) (whole a) its
         = whole (a + sum_list (map quantity_int its))"
  using assms
proof (induction its arbitrary: a)
  case Nil
  then show ?case by simp
next
  case (Cons x xs)
  from Cons.prems(1) obtain q where q: "1 \<le> q" "quantity x = Some (whole q)" by auto
  then have qi: "quantity_int x = q" by (simp add: quantity_int_whole)
  have "\<forall>y \<in> set xs. 0 \<le> quantity_int y"
    using Cons.prems(1) by (auto simp: quantity_int_whole)
  then have rest: "0 \<le> sum_list (map quantity_int xs)"
    by (intro sum_list_nonneg) auto
  with Cons.prems(2,3) q(1) qi have "0 < a + q" "a + q \<le> 2 ^ 53" by simp_all
  then have step: "num_add (whole a) (quantity_or_1 (quantity x)) = whole (a + q)"
    using q by (simp add: quantity_or_1_whole whole_add)
  have "foldl (\<lambda>sum item. num_add sum (quantity_or_1 (quantity item))) (whole (a + q)) xs
        = whole (a + q + sum_list (map quantity_int xs))"
    using Cons.prems q(1) qi by (intro Cons.IH) (simp_all add: add.assoc)
  with step qi show ?case by (simp add: add.assoc)
qed

lemma totalItems_whole:
  assumes "whole_inv B its" and "B \<le> 2 ^ 53"
  shows "totalItems (cartStats fp its) = whole (sum_list (map quantity_int its))"
proof -
  have "foldl (\<lambda>sum item. num_add sum (quantity_or_1 (quantity item))) (whole 0) its
        = whole (0 + sum_list (map quantity_int its))"
    using assms by (intro foldl_whole_sum) (simp_all add: whole_inv_def)
  then show ?thesis by (simp add: cartStats_def Let_def whole_0)
qed

lemma whole_inv_quantities:
  assumes "whole_inv B its"
  shows "map quantity its = map (\<lambda>q. Some (whole q)) (map quantity_int its)"
    and "\<forall>q \<in> set (map quantity_int its). 1 \<le> q"
proof -
  show "map quantity its = map (\<lambda>q. Some (whole q)) (map quantity_int its)"
    using assms by (auto simp: whole_inv_def quantity_int_whole)
  show "\<forall>q \<in> set (map quantity_int its). 1 \<le> q"
    using whole_inv_nonneg[OF assms] by auto
qed

lemma round_double_1: "round_double 1 = Fin 1"
  using lit_1 by (simp add: lit_def)

lemma round_double_numeral:
  "numeral k \<le> (9007199254740992 :: int) \<Longrightarrow> round_double (numeral k) = Fin (numeral k)"
  using round_double_int[of "numeral k"] by simp

lemma num_le_1_not_le_0: "num_le (lit 1) qty \<Longrightarrow> \<not> num_le qty (lit 0)"
  by (cases qty) (simp_all add: lit_0 lit_1)

lemma math_max_1_ge: "num_le (lit 1) qty \<Longrightarrow> math_max (lit 1) qty = qty"
  by (cases qty) (auto simp: lit_1)

lemma num_le_1_whole: "num_le (lit 1) (whole n) \<longleftrightarrow> 1 \<le> n"
  by (simp add: whole_def lit_1)

lemma addItem_present_entry:
  assumes "cart_inv (items s)" and "i < length (items s)"
    and "item_id (items s ! i) = item_id item"
  shows "items (addItem item now s) =
         (items s)[i := (items s ! i)
            \<lparr>quantity := Some (num_add (quantity_or_1 (quantity (items s ! i))) (lit 1))\<rparr>]"
proof -
  from assms have "findIndex (\<lambda>x. item_id x = item_id item) (items s) = Some i"
    by (intro findIndex_distinct) (simp_all add: cart_inv_def)
  then show ?thesis by (rule items_addItem_present)
qed

lemma addItem_increments_whole:
  assumes inv: "cart_inv (items s)" and w: "whole_inv B (items s)" and B: "B < 2 ^ 53"
    and i: "i < length (items s)" and same: "item_id (items s ! i) = item_id item"
  shows "items (addItem item now s) =
         (items s)[i := (items s ! i)
            \<lparr>quantity := Some (whole (quantity_int (items s ! i) + 1))\<rparr>]"
proof -
  from w i obtain q where q: "1 \<le> q" "quantity (items s ! i) = Some (whole q)"
    unfolding whole_inv_def by (meson nth_mem)
  have nonneg: "\<forall>x \<in> set (items s). 0 \<le> quantity_int x"
    using whole_inv_nonneg[OF w] by fastforce
  have qi: "quantity_int (items s ! i) = q" using q by (simp add: quantity_int_whole)
  then have "q = quantity_int (items s ! i)" by simp
  also have "\<dots> \<le> sum_list (map quantity_int (items s))"
    using nonneg i by (rule nth_le_sum_list_int)
  also have "\<dots> \<le> B" using w by (simp add: whole_inv_def)
  finally have "q + 1 \<le> 2 ^ 53" using B by simp
  with q have "num_add (quantity_or_1 (quantity (items s ! i))) (lit 1) = whole (q + 1)"
    by (simp add: quantity_or_1_whole whole_1 whole_add)
  with addItem_present_entry[OF inv i same] qi show ?thesis by simp
qed

text \<open>
  Claim C1, as stated, fails in two ways. In binary64 arithmetic the sum of \<open>2 ^ 53\<close> and 1
  rounds to \<open>2 ^ 53\<close>: after \<^verbatim>\<open>addItem\<close> of the item \<open>n1\<close> and
  \<^verbatim>\<open>updateItemQuantity("n1", 9007199254740992)\<close>, adding \<open>n1\<close> again leaves its quantity
  at 9007199254740992. And \<^verbatim>\<open>updateItemQuantity\<close> accepts NaN (\<^verbatim>\<open>NaN <= 0\<close> is false and
  \<^verbatim>\<open>Math.max(1, NaN)\<close> is NaN): the entry then has the quantity NaN, while
  \<^verbatim>\<open>totalItems\<close> counts it as 1.
\<close>

theorem addItem_saturates_counterexample:
  "quantity (items (run_cart [AddItem (example_item ''n1'' 5) 1,
                              UpdateItemQuantity ''n1'' (Fin 9007199254740992)]) ! 0)
     = Some (Fin 9007199254740992)
   \<and> quantity (items (addItem (example_item ''n1'' 5) 2
                 (run_cart [AddItem (example_item ''n1'' 5) 1,
                            UpdateItemQuantity ''n1'' (Fin 9007199254740992)])) ! 0)
     = Some (Fin 9007199254740992)
   \<and> quantity (items (run_cart [AddItem (example_item ''n1'' 5) 1,
                              UpdateItemQuantity ''n1'' NaN]) ! 0)
     = Some NaN
   \<and> totalItems (cartStats (\<lambda>p. []) (items (run_cart [AddItem (example_item ''n1'' 5) 1,
                              UpdateItemQuantity ''n1'' NaN])))
     = Fin 1"
  by (simp add: run_cart_def initialState_def addItem_def updateItemQuantity_def
      example_item_def quantity_or_1_def cartStats_def lit_0 lit_1 round_double_1
      round_double_2_53_plus_1)

text \<open>
  Claim C1, amended. After any sequence of calls of \<^verbatim>\<open>addItem\<close>, \<^verbatim>\<open>removeItem\<close>,
  \<^verbatim>\<open>updateItemQuantity\<close> and \<^verbatim>\<open>clearCart\<close> that starts from the empty cart, no two
  entries of the item list have the same identifier, and adding an item whose identifier
  is that of the entry at index \<open>i\<close> changes the list only at that entry (the list does not
  grow), whose quantity \<open>q\<close> becomes the binary64 sum of \<^verbatim>\<open>q || 1\<close> and 1. When every
  quantity passed to \<^verbatim>\<open>updateItemQuantity\<close> is a whole number and the budget of the
  sequence (the number of calls of \<^verbatim>\<open>addItem\<close> plus the sum of the positive quantities
  passed to \<^verbatim>\<open>updateItemQuantity\<close>) is below \<open>2 ^ 53\<close>, every entry has a whole quantity,
  at least 1, \<^verbatim>\<open>totalItems\<close> is the sum of these quantities, and adding an item whose
  identifier is present raises the quantity of its entry by exactly one.
\<close>

theorem cart_unique_entries:
  "distinct (map item_id (items (run_cart ops)))
   \<and> (\<forall>i < length (items (run_cart ops)).
          item_id (items (run_cart ops) ! i) = item_id item \<longrightarrow>
          items (addItem item now (run_cart ops))
            = (items (run_cart ops))
                [i := (items (run_cart ops) ! i)
                   \<lparr>quantity := Some (num_add (quantity_or_1
                                   (quantity (items (run_cart ops) ! i))) (lit 1))\<rparr>])
   \<and> (list_all whole_op ops \<and> cart_budget ops < 2 ^ 53 \<longrightarrow>
        (\<exists>qs. map quantity (items (run_cart ops)) = map (\<lambda>q. Some (whole q)) qs
            \<and> (\<forall>q \<in> set qs. 1 \<le> q)
            \<and> totalItems (cartStats formatPrice (items (run_cart ops))) = whole (sum_list qs)
            \<and> (\<forall>i < length qs.
                  item_id (items (run_cart ops) ! i) = item_id item \<longrightarrow>
                  items (addItem item now (run_cart ops))
                    = (items (run_cart ops))
                        [i := (items (run_cart ops) ! i)
                           \<lparr>quantity := Some (whole (qs ! i + 1))\<rparr>])))"
proof (intro conjI allI impI)
  show "distinct (map item_id (items (run_cart ops)))"
    using cart_inv_run[of ops] by (simp add: cart_inv_def)
next
  fix i
  assume "i < length (items (run_cart ops))"
    and "item_id (items (run_cart ops) ! i) = item_id item"
  with cart_inv_run[of ops]
  show "items (addItem item now (run_cart ops))
            = (items (run_cart ops))
                [i := (items (run_cart ops) ! i)
                   \<lparr>quantity := Some (num_add (quantity_or_1
                                   (quantity (items (run_cart ops) ! i))) (lit 1))\<rparr>]"
    by (rule addItem_present_entry)
next
  assume h: "list_all whole_op ops \<and> cart_budget ops < 2 ^ 53"
  define its where "its = items (run_cart ops)"
  define qs where "qs = map quantity_int its"
  from h have w: "whole_inv (cart_budget ops) its"
    unfolding its_def by (intro whole_inv_run) simp_all
  have inv: "cart_inv its" unfolding its_def by (rule cart_inv_run)
  have 1: "map quantity its = map (\<lambda>q. Some (whole q)) qs"
    unfolding qs_def using w by (rule whole_inv_quantities)
  have 2: "\<forall>q \<in> set qs. 1 \<le> q"
    unfolding qs_def using w by (rule whole_inv_quantities)
  have 3: "totalItems (cartStats formatPrice its) = whole (sum_list qs)"
  proof -
    from h have "cart_budget ops \<le> 2 ^ 53" by simp
    with w show ?thesis unfolding qs_def by (rule totalItems_whole)
  qed
  have 4: "\<forall>i < length qs. item_id (its ! i) = item_id item \<longrightarrow>
              items (addItem item now (run_cart ops))
                = its[i := (its ! i)\<lparr>quantity := Some (whole (qs ! i + 1))\<rparr>]"
  proof (intro allI impI)
    fix i
    assume i: "i < length qs" and same: "item_id (its ! i) = item_id item"
    from i have i': "i < length (items (run_cart ops))" by (simp add: qs_def its_def)
    from h have B: "cart_budget ops < 2 ^ 53" by simp
    have "items (addItem item now (run_cart ops))
          = (items (run_cart ops))[i := (items (run_cart ops) ! i)
               \<lparr>quantity := Some (whole (quantity_int (items (run_cart ops) ! i) + 1))\<rparr>]"
      using inv w B i' same unfolding its_def by (rule addItem_increments_whole)
    then show "items (addItem item now (run_cart ops))
                = its[i := (its ! i)\<lparr>quantity := Some (whole (qs ! i + 1))\<rparr>]"
      using i' by (simp add: qs_def its_def)
  qed
  from 1 2 3 4
  show "\<exists>qs. map quantity (items (run_cart ops)) = map (\<lambda>q. Some (whole q)) qs
            \<and> (\<forall>q \<in> set qs. 1 \<le> q)
            \<and> totalItems (cartStats formatPrice (items (run_cart ops))) = whole (sum_list qs)
            \<and> (\<forall>i < length qs.
                  item_id (items (run_cart ops) ! i) = item_id item \<longrightarrow>
                  items (addItem item now (run_cart ops))
                    = (items (run_cart ops))
                        [i := (items (run_cart ops) ! i)
                           \<lparr>quantity := Some (whole (qs ! i + 1))\<rparr>])"
    unfolding its_def[symmetric] by blast
qed

theorem cart_unique_entries_witness:
  "list_all whole_op [AddItem (example_item ''n1'' 5) 1, AddItem (example_item ''n2'' 7) 2,
                      AddItem (example_item ''n1'' 5) 3]
   \<and> cart_budget [AddItem (example_item ''n1'' 5) 1, AddItem (example_item ''n2'' 7) 2,
                   AddItem (example_item ''n1'' 5) 3] = 3
   \<and> items (run_cart [AddItem (example_item ''n1'' 5) 1, AddItem (example_item ''n2'' 7) 2,
                    AddItem (example_item ''n1'' 5) 3])
     = [(example_item ''n1'' 5)\<lparr>addedAt := Date 1, quantity := Some (whole 2)\<rparr>,
        (example_item ''n2'' 7)\<lparr>addedAt := Date 2, quantity := Some (whole 1)\<rparr>]
   \<and> totalItems (cartStats (\<lambda>p. []) (items (run_cart
         [AddItem (example_item ''n1'' 5) 1, AddItem (example_item ''n2'' 7) 2,
          AddItem (example_item ''n1'' 5) 3]))) = whole 3
   \<and> items (addItem (example_item ''n1'' 5) 4 (run_cart
         [AddItem (example_item ''n1'' 5) 1, AddItem (example_item ''n2'' 7) 2,
          AddItem (example_item ''n1'' 5) 3]))
     = [(example_item ''n1'' 5)\<lparr>addedAt := Date 1, quantity := Some (whole 3)\<rparr>,
        (example_item ''n2'' 7)\<lparr>addedAt := Date 2, quantity := Some (whole 1)\<rparr>]"
  using cart_unique_entries[of "[AddItem (example_item ''n1'' 5) 1, AddItem (example_item ''n2'' 7) 2,
          AddItem (example_item ''n1'' 5) 3]" "example_item ''n1'' 5" 4 "\<lambda>p. []"]
  by (simp add: run_cart_def initialState_def addItem_def example_item_def quantity_or_1_def
      cartStats_def cart_budget_def whole_def lit_0 lit_1 round_double_1 round_double_numeral)

text \<open>
  Claim C5. \<^verbatim>\<open>updateItemQuantity(id, qty)\<close> with \<open>qty \<le> 0\<close> gives the same cart state as
  \<^verbatim>\<open>removeItem(id)\<close>; with \<open>1 \<le> qty\<close> it keeps every entry in place and the entry with
  the identifier \<open>id\<close> gets the quantity \<^verbatim>\<open>Math.max(1, qty)\<close>, which is \<open>qty\<close> and is at
  least 1. This holds for every number \<open>qty\<close>, and so for every whole number \<open>n\<close>: there the
  stored quantity is \<open>max 1 n\<close>.
\<close>

theorem updateItemQuantity_sets_or_removes:
  "(num_le qty (lit 0) \<longrightarrow> updateItemQuantity ident qty s = removeItem ident s)
   \<and> (num_le (lit 1) qty \<longrightarrow>
        length (items (updateItemQuantity ident qty s)) = length (items s)
        \<and> (\<forall>j < length (items s). item_id (items s ! j) = ident \<longrightarrow>
              item_id (items (updateItemQuantity ident qty s) ! j) = ident
              \<and> quantity (items (updateItemQuantity ident qty s) ! j)
                  = Some (math_max (lit 1) qty)
              \<and> math_max (lit 1) qty = qty
              \<and> num_le (lit 1) (math_max (lit 1) qty)))
   \<and> (n \<le> 0 \<longrightarrow> updateItemQuantity ident (whole n) s = removeItem ident s)
   \<and> (1 \<le> n \<longrightarrow>
        length (items (updateItemQuantity ident (whole n) s)) = length (items s)
        \<and> (\<forall>j < length (items s). item_id (items s ! j) = ident \<longrightarrow>
              item_id (items (updateItemQuantity ident (whole n) s) ! j) = ident
              \<and> quantity (items (updateItemQuantity ident (whole n) s) ! j)
                  = Some (whole (max 1 n))
              \<and> 1 \<le> max 1 n))"
proof (intro conjI impI)
  assume "num_le qty (lit 0)"
  then show "updateItemQuantity ident qty s = removeItem ident s"
    by (simp add: updateItemQuantity_def)
next
  assume h: "num_le (lit 1) qty"
  then show "length (items (updateItemQuantity ident qty s)) = length (items s)"
    by (simp add: updateItemQuantity_def num_le_1_not_le_0)
  from h show "\<forall>j < length (items s). item_id (items s ! j) = ident \<longrightarrow>
              item_id (items (updateItemQuantity ident qty s) ! j) = ident
              \<and> quantity (items (updateItemQuantity ident qty s) ! j)
                  = Some (math_max (lit 1) qty)
              \<and> math_max (lit 1) qty = qty
              \<and> num_le (lit 1) (math_max (lit 1) qty)"
    by (simp add: updateItemQuantity_def num_le_1_not_le_0 math_max_1_ge)
next
  assume "n \<le> 0"
  then show "updateItemQuantity ident (whole n) s = removeItem ident s"
    by (simp add: updateItemQuantity_def num_le_whole_0)
next
  assume h: "1 \<le> n"
  then have m: "max 1 n = n" by simp
  from h show "length (items (updateItemQuantity ident (whole n) s)) = length (items s)"
    by (simp add: updateItemQuantity_def num_le_whole_0)
  from h show "\<forall>j < length (items s). item_id (items s ! j) = ident \<longrightarrow>
              item_id (items (updateItemQuantity ident (whole n) s) ! j) = ident
              \<and> quantity (items (updateItemQuantity ident (whole n) s) ! j)
                  = Some (whole (max 1 n))
              \<and> 1 \<le> max 1 n"
    unfolding m by (simp add: updateItemQuantity_def num_le_whole_0 math_max_1_whole)
qed

theorem updateItemQuantity_sets_or_removes_witness:
  "num_le (Fin 0) (lit 0) \<and> num_le (lit 1) (Fin 4)
   \<and> updateItemQuantity ''n1'' (Fin 0) (run_cart [AddItem (example_item ''n1'' 5) 1])
     = removeItem ''n1'' (run_cart [AddItem (example_item ''n1'' 5) 1])
   \<and> items (updateItemQuantity ''n1'' (Fin 0) (run_cart [AddItem (example_item ''n1'' 5) 1])) = []
   \<and> quantity (items (updateItemQuantity ''n1'' (Fin 4)
                 (run_cart [AddItem (example_item ''n1'' 5) 1])) ! 0)
     = Some (Fin 4)
   \<and> quantity (items (updateItemQuantity ''n1'' (whole 4)
                 (run_cart [AddItem (example_item ''n1'' 5) 1])) ! 0)
     = Some (whole 4)"
  using updateItemQuantity_sets_or_removes[of "Fin 0" "''n1''"
      "run_cart [AddItem (example_item ''n1'' 5) 1]" 0]
    updateItemQuantity_sets_or_removes[of "Fin 4" "''n1''"
      "run_cart [AddItem (example_item ''n1'' 5) 1]" 4]
  by (simp add: run_cart_def initialState_def addItem_def example_item_def removeItem_def
      lit_0 lit_1 whole_def)

text \<open>
  Claim C10. For \<open>1 \<le> qty\<close>, \<^verbatim>\<open>updateItemQuantity(id, qty)\<close> leaves the item list as it is
  when no entry has the identifier \<open>id\<close> (no entry is created); in any case the list keeps
  its length, the entries with another identifier are unchanged, and an entry with the
  identifier \<open>id\<close> differs from the old one in its quantity only: putting the old quantity
  back gives the old entry.
\<close>

theorem updateItemQuantity_frame:
  "num_le (lit 1) qty \<Longrightarrow>
   (ident \<notin> item_id ` set (items s) \<longrightarrow> items (updateItemQuantity ident qty s) = items s)
   \<and> length (items (updateItemQuantity ident qty s)) = length (items s)
   \<and> (\<forall>j < length (items s).
         (item_id (items s ! j) \<noteq> ident \<longrightarrow>
            items (updateItemQuantity ident qty s) ! j = items s ! j)
         \<and> (item_id (items s ! j) = ident \<longrightarrow>
            (items (updateItemQuantity ident qty s) ! j)\<lparr>quantity := quantity (items s ! j)\<rparr>
              = items s ! j))"
  by (auto simp: updateItemQuantity_def num_le_1_not_le_0 intro!: map_idI)

theorem updateItemQuantity_frame_witness:
  "num_le (lit 1) (Fin 3)
   \<and> items (updateItemQuantity ''zz'' (Fin 3)
            (run_cart [AddItem (example_item ''n1'' 5) 1, AddItem (example_item ''n2'' 7) 2]))
     = items (run_cart [AddItem (example_item ''n1'' 5) 1, AddItem (example_item ''n2'' 7) 2])
   \<and> items (updateItemQuantity ''n1'' (Fin 3)
            (run_cart [AddItem (example_item ''n1'' 5) 1, AddItem (example_item ''n2'' 7) 2])) ! 1
     = (example_item ''n2'' 7)\<lparr>addedAt := Date 2, quantity := Some (Fin 1)\<rparr>
   \<and> items (updateItemQuantity ''n1'' (Fin 3)
            (run_cart [AddItem (example_item ''n1'' 5) 1, AddItem (example_item ''n2'' 7) 2])) ! 0
     = (example_item ''n1'' 5)\<lparr>addedAt := Date 1, quantity := Some (Fin 3)\<rparr>"
  using updateItemQuantity_frame[of "Fin 3" "''zz''"
      "run_cart [AddItem (example_item ''n1'' 5) 1, AddItem (example_item ''n2'' 7) 2]"]
    updateItemQuantity_frame[of "Fin 3" "''n1''"
      "run_cart [AddItem (example_item ''n1'' 5) 1, AddItem (example_item ''n2'' 7) 2]"]
  by (simp add: run_cart_def initialState_def addItem_def example_item_def
      updateItemQuantity_def lit_0 lit_1)

section \<open>Properties of the payment service and the checkout\<close>

lemma failure_index:
  assumes "unit_random r"
  shows "\<exists>k < 4. math_floor (num_mul r (num_of_int 4)) = Fin (of_nat k)"
proof -
  from assms obtain q where r: "r = Fin q" and rep: "round_double q = Fin q"
    and q0: "0 \<le> q" and q1: "q < 1"
    by (cases r) simp_all
  have prod: "num_mul r (num_of_int 4) = Fin (q * 4)"
  proof (cases "q = 0")
    case True
    then show ?thesis by (simp add: r num_of_int_4 round_double_0)
  next
    case False
    with q0 have "0 < q" by simp
    from round_double_times_4[OF rep this q1] show ?thesis
      by (simp add: r num_of_int_4)
  qed
  have lo: "0 \<le> \<lfloor>q * 4\<rfloor>" using q0 by simp
  have "q * 4 < 4" using q1 by simp
  then have hi: "\<lfloor>q * 4\<rfloor> < 4" by (simp add: floor_less_iff)
  define k where "k = nat \<lfloor>q * 4\<rfloor>"
  have "k < 4" using hi lo unfolding k_def by linarith
  moreover have "math_floor (num_mul r (num_of_int 4)) = Fin (of_nat k)"
    using lo by (simp add: prod k_def)
  ultimately show ?thesis by blast
qed

lemma array_get_of_nat:
  "k < length xs \<Longrightarrow> array_get xs (Fin (of_nat k)) = Some (xs ! k)"
  by simp

text \<open>
  Claim C9. When the number drawn for the failure reason is a result of
  \<^verbatim>\<open>Math.random()\<close>, the response of \<^verbatim>\<open>processPayment\<close> has one of two shapes: success
  with the status \<open>COMPLETED\<close> and a transaction identifier, or no success with the status
  \<open>FAILED\<close>, no transaction identifier and an error that is one of the four fixed strings.
\<close>

theorem processPayment_result_shape:
  assumes "unit_random (failure_random d)"
  shows "(success (response (processPayment pf d req)) \<longrightarrow>
            status (response (processPayment pf d req)) = COMPLETED
            \<and> (\<exists>t. transactionId (response (processPayment pf d req)) = Some t))
       \<and> (\<not> success (response (processPayment pf d req)) \<longrightarrow>
            status (response (processPayment pf d req)) = FAILED
            \<and> transactionId (response (processPayment pf d req)) = None
            \<and> resp_error (response (processPayment pf d req))
                \<in> {Some ''Insufficient funds'', Some ''Payment method declined'',
                    Some ''Network timeout'', Some ''Invalid payment details''})"
proof (cases "num_less (success_random d) (successRates (req_method req))")
  case True
  then show ?thesis by (simp add: processPayment_def)
next
  case False
  have len: "length failures = 4" by (simp add: failures_def)
  from failure_index[OF assms] obtain k where k: "k < 4"
    and fl: "math_floor (num_mul (failure_random d) (num_of_int 4)) = Fin (of_nat k)"
    by blast
  have "array_get failures (Fin (of_nat k)) = Some (failures ! k)"
    using k len by (intro array_get_of_nat) simp
  moreover have "failures ! k \<in> {''Insufficient funds'', ''Payment method declined'',
                    ''Network timeout'', ''Invalid payment details''}"
    using k by (auto simp: failures_def less_Suc_eq numeral_eq_Suc)
  ultimately show ?thesis
    using False by (simp add: processPayment_def len fl del: array_get.simps)
qed


theorem processPayment_result_shape_witness:
  "status (response (processPayment example_platform failure_draws empty_request)) = FAILED
   \<and> transactionId (response (processPayment example_platform failure_draws empty_request)) = None
   \<and> resp_error (response (processPayment example_platform failure_draws empty_request))
       = Some ''Network timeout''
   \<and> status (response (processPayment example_platform success_draws empty_request)) = COMPLETED
   \<and> transactionId (response (processPayment example_platform success_draws empty_request))
       = Some ''txn_1700000000000_i''"
proof -
  have u1: "unit_random (failure_random failure_draws)"
    by (simp add: failure_draws_def round_double_half)
  have u2: "unit_random (failure_random success_draws)"
    by (simp add: success_draws_def round_double_0)
  have two: "round_double 2 = Fin 2"
    using round_double_eval[of 2 1 4503599627370496] by simp
  have dec: "decimal 1700000000000 = ''1700000000000''"
    by (simp add: decimal_def)
  show ?thesis
    using processPayment_result_shape[OF u1, of example_platform empty_request]
      processPayment_result_shape[OF u2, of example_platform empty_request]
    by (simp add: processPayment_def failure_draws_def success_draws_def empty_request_def
        example_platform_def lit_0_95 failures_def num_of_int_4 two dec Let_def)
qed

lemma validate_empty_items:
  "req_items request = [] \<Longrightarrow> ''No items to purchase'' \<in> set (validatePaymentRequest request)"
  by (simp add: validatePaymentRequest_def)

lemma validate_ok_iff:
  "validatePaymentRequest request = [] \<longleftrightarrow>
     num_truthy (amount request) \<and> \<not> num_le (amount request) (lit 0)
     \<and> currency request \<noteq> [] \<and> req_items request \<noteq> []
     \<and> cust_email (customerInfo request) \<noteq> [] \<and> cust_name (customerInfo request) \<noteq> []"
  by (cases "req_method request") (auto simp: validatePaymentRequest_def)

text \<open>
  Claim C3, as stated, fails: \<^verbatim>\<open>processPayment\<close> does not validate. For a request
  without line items, which \<^verbatim>\<open>validatePaymentRequest\<close> rejects, it awaits the delay
  (2000 ms for the draw 0) and resolves to a completed payment.
\<close>

theorem processPayment_without_validation_counterexample:
  "req_items empty_request = []
   \<and> ''No items to purchase'' \<in> set (validatePaymentRequest empty_request)
   \<and> waited (processPayment example_platform success_draws empty_request) = Fin 2000
   \<and> success (response (processPayment example_platform success_draws empty_request))
   \<and> status (response (processPayment example_platform success_draws empty_request)) = COMPLETED
   \<and> resp_error (response (processPayment example_platform success_draws empty_request)) = None"
proof -
  have "round_double 2000 = Fin 2000"
    using lit_2000 by (simp add: lit_def)
  then show ?thesis
    by (simp add: processPayment_def success_draws_def empty_request_def lit_0_95 lit_2000
        lit_3000 round_double_0 validatePaymentRequest_def Let_def)
qed

text \<open>
  Claim C3, amended. The validation is \<^verbatim>\<open>validatePaymentRequest\<close>, which the checkout
  calls before \<^verbatim>\<open>processPayment\<close>: it reports the missing items for a request without
  line items, and accepts a request exactly when the amount is truthy and positive and
  currency, line items, customer email and customer name are not empty. The checkout
  stops at an empty cart and at any validation error, with the errors as its outcome and
  the cart unchanged; whenever its outcome contains a run of \<^verbatim>\<open>processPayment\<close>, the cart
  was not empty and the request had passed the validation.
\<close>

theorem checkout_validates_before_payment:
  "(req_items request = [] \<longrightarrow>
      ''No items to purchase'' \<in> set (validatePaymentRequest request))
   \<and> (validatePaymentRequest request = [] \<longleftrightarrow>
        num_truthy (amount request) \<and> \<not> num_le (amount request) (lit 0)
        \<and> currency request \<noteq> [] \<and> req_items request \<noteq> []
        \<and> cust_email (customerInfo request) \<noteq> [] \<and> cust_name (customerInfo request) \<noteq> [])
   \<and> (items cart = [] \<longrightarrow>
        handleCheckout pf formatPrice d now m customer cart = (EmptyCart, cart))
   \<and> (items cart \<noteq> []
        \<and> validatePaymentRequest (checkoutRequest formatPrice m customer cart) \<noteq> [] \<longrightarrow>
        handleCheckout pf formatPrice d now m customer cart
          = (ValidationError (validatePaymentRequest (checkoutRequest formatPrice m customer cart)),
             cart))
   \<and> ((\<exists>run. fst (handleCheckout pf formatPrice d now m customer cart) = PaymentFailed run
            \<or> (\<exists>od. fst (handleCheckout pf formatPrice d now m customer cart)
                        = PaymentSuccessful run od)) \<longrightarrow>
        items cart \<noteq> []
        \<and> validatePaymentRequest (checkoutRequest formatPrice m customer cart) = [])"
proof (intro conjI impI)
  show "validatePaymentRequest request = [] \<longleftrightarrow>
        num_truthy (amount request) \<and> \<not> num_le (amount request) (lit 0)
        \<and> currency request \<noteq> [] \<and> req_items request \<noteq> []
        \<and> cust_email (customerInfo request) \<noteq> [] \<and> cust_name (customerInfo request) \<noteq> []"
    by (rule validate_ok_iff)
qed (auto simp: validate_empty_items handleCheckout_def Let_def split: if_splits)

lemma example_checkout_amount:
  "amount (checkoutRequest example_format STRIPE c
        (run_cart [AddItem (example_item ''n1'' (1599 / 100)) 1]))
      = Fin (4950863365363729 / 281474976710656)"
  by (simp add: checkoutRequest_def run_cart_def initialState_def addItem_def
        example_item_def cartStats_def Let_def quantity_or_1_def cartSummary_def
        lit_1 mul_15_99_1 add_0_15_99 mul_15_99_1_1)

lemma example_checkout_validation:
  "validatePaymentRequest (checkoutRequest example_format STRIPE c
        (run_cart [AddItem (example_item ''n1'' (1599 / 100)) 1]))
      = (if cust_email c = [] then [''Customer email is required''] else [])
        @ (if cust_name c = [] then [''Customer name is required''] else [])"
proof -
  have "currency (checkoutRequest example_format STRIPE c s) = ''USD''"
    "req_method (checkoutRequest example_format STRIPE c s) = STRIPE"
    "customerInfo (checkoutRequest example_format STRIPE c s) = c" for s
    by (simp_all add: checkoutRequest_def)
  moreover have "req_items (checkoutRequest example_format STRIPE c
        (run_cart [AddItem (example_item ''n1'' (1599 / 100)) 1])) \<noteq> []"
    by (simp add: checkoutRequest_def run_cart_def initialState_def addItem_def)
  ultimately show ?thesis
    unfolding validatePaymentRequest_def example_checkout_amount
    by (simp add: lit_0)
qed

lemma example_checkout_success:
  "success (response (processPayment example_platform success_draws
        (checkoutRequest example_format STRIPE c s)))"
  by (simp add: processPayment_def success_draws_def Let_def lit_0_95 checkoutRequest_def)

lemma example_cart_nonempty:
  "items (run_cart [AddItem (example_item ''n1'' (1599 / 100)) 1]) \<noteq> []"
  by (simp add: run_cart_def initialState_def addItem_def)

lemma example_checkout_invalid:
  "handleCheckout example_platform example_format success_draws 9 STRIPE
        \<lparr>cust_email = ''jo@x.com'', cust_name = []\<rparr>
        (run_cart [AddItem (example_item ''n1'' (1599 / 100)) 1])
       = (ValidationError [''Customer name is required''],
          run_cart [AddItem (example_item ''n1'' (1599 / 100)) 1])"
  using example_cart_nonempty
  by (simp add: handleCheckout_def Let_def example_checkout_validation)

lemma example_checkout_paid:
  "snd (handleCheckout example_platform example_format success_draws 9 STRIPE
        \<lparr>cust_email = ''jo@x.com'', cust_name = ''Jo''\<rparr>
        (run_cart [AddItem (example_item ''n1'' (1599 / 100)) 1]))
       = clearCart (run_cart [AddItem (example_item ''n1'' (1599 / 100)) 1])"
  using example_cart_nonempty
  by (simp add: handleCheckout_def Let_def example_checkout_validation example_checkout_success)


lemma example_checkout_empty:
  "handleCheckout example_platform example_format success_draws 9 STRIPE c (run_cart [])
       = (EmptyCart, run_cart [])"
  by (simp add: handleCheckout_def run_cart_def initialState_def)

lemma example_empty_request_rejected:
  "''No items to purchase'' \<in> set (validatePaymentRequest empty_request)"
  by (simp add: validatePaymentRequest_def empty_request_def)

theorem checkout_validates_before_payment_witness:
  "''No items to purchase'' \<in> set (validatePaymentRequest empty_request)
   \<and> handleCheckout example_platform example_format success_draws 9 STRIPE
        \<lparr>cust_email = ''jo@x.com'', cust_name = []\<rparr> (run_cart [])
       = (EmptyCart, run_cart [])
   \<and> handleCheckout example_platform example_format success_draws 9 STRIPE
        \<lparr>cust_email = ''jo@x.com'', cust_name = []\<rparr>
        (run_cart [AddItem (example_item ''n1'' (1599 / 100)) 1])
       = (ValidationError [''Customer name is required''],
          run_cart [AddItem (example_item ''n1'' (1599 / 100)) 1])
   \<and> validatePaymentRequest (checkoutRequest example_format STRIPE
        \<lparr>cust_email = ''jo@x.com'', cust_name = ''Jo''\<rparr>
        (run_cart [AddItem (example_item ''n1'' (1599 / 100)) 1])) = []
   \<and> snd (handleCheckout example_platform example_format success_draws 9 STRIPE
        \<lparr>cust_email = ''jo@x.com'', cust_name = ''Jo''\<rparr>
        (run_cart [AddItem (example_item ''n1'' (1599 / 100)) 1]))
       = clearCart (run_cart [AddItem (example_item ''n1'' (1599 / 100)) 1])"
proof -
  note inst = checkout_validates_before_payment[of empty_request
        "run_cart [AddItem (example_item ''n1'' (1599 / 100)) 1]"
        example_platform example_format success_draws 9 STRIPE
        "\<lparr>cust_email = ''jo@x.com'', cust_name = []\<rparr>"]
  from inst have "''No items to purchase'' \<in> set (validatePaymentRequest empty_request)"
    by (simp add: empty_request_def)
  moreover from inst example_cart_nonempty
  have "handleCheckout example_platform example_format success_draws 9 STRIPE
        \<lparr>cust_email = ''jo@x.com'', cust_name = []\<rparr>
        (run_cart [AddItem (example_item ''n1'' (1599 / 100)) 1])
       = (ValidationError [''Customer name is required''],
          run_cart [AddItem (example_item ''n1'' (1599 / 100)) 1])"
    by (simp add: example_checkout_validation)
  ultimately show ?thesis
    by (simp add: example_checkout_empty example_checkout_validation example_checkout_paid)
qed

section \<open>Properties of the totals\<close>

lemma foldl_price_sum:
  assumes "map quantity its = map Some qs" and "\<forall>q \<in> set qs. num_truthy q"
  shows "foldl (\<lambda>sum item.
                  num_add sum (num_mul (price item) (quantity_or_1 (quantity item))))
               a its
         = foldl num_add a (map2 (\<lambda>item q. num_mul (price item) q) its qs)"
  using assms
proof (induction its arbitrary: qs a)
  case Nil
  then show ?case by simp
next
  case (Cons x xs)
  then obtain q qs' where qs: "qs = q # qs'" by (cases qs) auto
  with Cons.prems have q: "quantity x = Some q" "num_truthy q"
    and rest: "map quantity xs = map Some qs'" "\<forall>q \<in> set qs'. num_truthy q"
    by simp_all
  from q have "quantity_or_1 (quantity x) = q" by (simp add: quantity_or_1_def)
  with Cons.IH[OF rest] show ?case by (simp add: qs)
qed

lemma example_totalPrice:
  "totalPrice (cartStats fp [(example_item ''n1'' (1599 / 100))\<lparr>quantity := Some (Fin 1)\<rparr>])
   = lit (1599 / 100)"
  by (simp add: cartStats_def Let_def example_item_def quantity_or_1_def mul_15_99_1 add_0_15_99)

text \<open>
  Claim C4, as stated, fails at its example: for the cart with one item priced 15.99 and
  the quantity 1, the tax is the binary64 product of 15.99 and 0.1, which is
  1.5990000000000002 and not the number 1.599, and the total is 17.589000000000002 and
  not the number 17.589.
\<close>

theorem cart_totals_example_counterexample:
  "tax (cartSummary (totalPrice (cartStats example_format
          [(example_item ''n1'' (1599 / 100))\<lparr>quantity := Some (Fin 1)\<rparr>])))
     = Fin (450078487760339 / 281474976710656)
   \<and> tax (cartSummary (totalPrice (cartStats example_format
          [(example_item ''n1'' (1599 / 100))\<lparr>quantity := Some (Fin 1)\<rparr>])))
     \<noteq> lit (1599 / 1000)
   \<and> total_due (cartSummary (totalPrice (cartStats example_format
          [(example_item ''n1'' (1599 / 100))\<lparr>quantity := Some (Fin 1)\<rparr>])))
     = Fin (4950863365363729 / 281474976710656)
   \<and> total_due (cartSummary (totalPrice (cartStats example_format
          [(example_item ''n1'' (1599 / 100))\<lparr>quantity := Some (Fin 1)\<rparr>])))
     \<noteq> lit (17589 / 1000)"
  by (simp add: example_totalPrice cartSummary_def mul_15_99_0_1 mul_15_99_1_1
      lit_1_599 lit_17_589)

text \<open>
  Claim C4, amended. For a cart whose entries all have a quantity other than 0 and NaN
  (the quantities that \<^verbatim>\<open>||\<close> does not replace by 1), the total
  price is the sum, taken from left to right in binary64 arithmetic, of the products of
  price and quantity; the subtotal is the total price, the tax is the product of the
  subtotal and 0.1, and the grand total is the product of the subtotal and 1.1. The cart
  with one item priced 15.99 and the quantity 1 has the subtotal 15.99, the tax
  1.5990000000000002 and the total 17.589000000000002, which are within \<open>3 / 10 ^ 15\<close>
  of 1.599 and 17.589.
\<close>

theorem cart_totals:
  assumes "map quantity its = map Some qs" and "\<forall>q \<in> set qs. num_truthy q"
  shows "totalPrice (cartStats fp its)
           = foldl num_add (lit 0) (map2 (\<lambda>item q. num_mul (price item) q) its qs)
       \<and> subtotal (cartSummary (totalPrice (cartStats fp its))) = totalPrice (cartStats fp its)
       \<and> tax (cartSummary (totalPrice (cartStats fp its)))
           = num_mul (totalPrice (cartStats fp its)) (lit (1 / 10))
       \<and> total_due (cartSummary (totalPrice (cartStats fp its)))
           = num_mul (totalPrice (cartStats fp its)) (lit (11 / 10))
       \<and> subtotal (cartSummary (totalPrice (cartStats fp
             [(example_item ''n1'' (1599 / 100))\<lparr>quantity := Some (Fin 1)\<rparr>])))
           = lit (1599 / 100)
       \<and> tax (cartSummary (totalPrice (cartStats fp
             [(example_item ''n1'' (1599 / 100))\<lparr>quantity := Some (Fin 1)\<rparr>])))
           = Fin (450078487760339 / 281474976710656)
       \<and> total_due (cartSummary (totalPrice (cartStats fp
             [(example_item ''n1'' (1599 / 100))\<lparr>quantity := Some (Fin 1)\<rparr>])))
           = Fin (4950863365363729 / 281474976710656)
       \<and> \<bar>450078487760339 / 281474976710656 - 1599 / 1000 :: rat\<bar> < 1 / 10 ^ 15
       \<and> \<bar>4950863365363729 / 281474976710656 - 17589 / 1000 :: rat\<bar> < 3 / 10 ^ 15"
proof (intro conjI)
  show "totalPrice (cartStats fp its)
           = foldl num_add (lit 0) (map2 (\<lambda>item q. num_mul (price item) q) its qs)"
    using foldl_price_sum[OF assms] by (simp add: cartStats_def Let_def)
qed (simp_all add: cartSummary_def example_totalPrice mul_15_99_0_1 mul_15_99_1_1)

theorem cart_totals_witness:
  "totalPrice (cartStats example_format
      [(example_item ''n1'' 5)\<lparr>quantity := Some (Fin 2)\<rparr>, (example_item ''n2'' 7)\<lparr>quantity := Some (Fin 1)\<rparr>])
     = num_add (num_add (lit 0) (num_mul (lit 5) (Fin 2))) (num_mul (lit 7) (Fin 1))
   \<and> tax (cartSummary (totalPrice (cartStats example_format
      [(example_item ''n1'' 5)\<lparr>quantity := Some (Fin 2)\<rparr>, (example_item ''n2'' 7)\<lparr>quantity := Some (Fin 1)\<rparr>])))
     = num_mul (totalPrice (cartStats example_format
      [(example_item ''n1'' 5)\<lparr>quantity := Some (Fin 2)\<rparr>, (example_item ''n2'' 7)\<lparr>quantity := Some (Fin 1)\<rparr>]))
        (lit (1 / 10))"
  using cart_totals[of "[(example_item ''n1'' 5)\<lparr>quantity := Some (Fin 2)\<rparr>,
      (example_item ''n2'' 7)\<lparr>quantity := Some (Fin 1)\<rparr>]" "[Fin 2, Fin 1]" example_format]
  by (simp add: example_item_def cartStats_def Let_def quantity_or_1_def cartSummary_def)

section \<open>Properties of the stores that persist\<close>

text \<open>
  Claim C6. For every email that the format validation rejects and every password,
  \<^verbatim>\<open>login\<close> throws an error of the type \<open>INVALID_EMAIL\<close>, which is also the error of the
  state after the call, and it has awaited no delay and written nothing to the storage.
\<close>

theorem login_invalid_email:
  assumes "\<not> isValidEmail e"
  shows "run_thrown (login isValidEmail pf generatedId now e password state st)
           = Some \<lparr>err_type = INVALID_EMAIL, err_message = ''Invalid email or password'',
                   originalError = None\<rparr>
       \<and> run_waited (login isValidEmail pf generatedId now e password state st) = 0
       \<and> run_storage (login isValidEmail pf generatedId now e password state st) = st
       \<and> auth_error (run_state (login isValidEmail pf generatedId now e password state st))
           = Some \<lparr>err_type = INVALID_EMAIL, err_message = ''Invalid email or password'',
                   originalError = None\<rparr>
       \<and> auth_user (run_state (login isValidEmail pf generatedId now e password state st))
           = auth_user state"
  using assms by (simp add: login_def auth_failed_def Let_def)

theorem login_invalid_email_witness:
  "\<not> example_isValidEmail ''not-an-email''
   \<and> run_thrown (login example_isValidEmail example_platform ''u1'' 0 ''not-an-email'' ''pw''
         auth_initialState empty_storage)
       = Some \<lparr>err_type = INVALID_EMAIL, err_message = ''Invalid email or password'',
               originalError = None\<rparr>
   \<and> run_waited (login example_isValidEmail example_platform ''u1'' 0 ''not-an-email'' ''pw''
         auth_initialState empty_storage) = 0"
proof -
  have invalid: "\<not> example_isValidEmail ''not-an-email''"
    by (simp add: example_isValidEmail_def)
  from login_invalid_email[of example_isValidEmail "''not-an-email''" example_platform
      "''u1''" 0 "''pw''" auth_initialState empty_storage] invalid
  show ?thesis by simp
qed

lemma parseCartData_corrupted:
  "corrupted t \<Longrightarrow> parseCartData pf now t = Typed []"
  by (auto simp: corrupted_def parseCartData_def JSON_parse_def
      split: stored.splits json.splits)

text \<open>
  Claim C7. When the persisted cart value is corrupted (a text that does not parse, or
  the text of a value that is not an array), the initialization of the cart ends in a
  state (no error escapes) whose item list is empty, which is not loading and has no
  error.
\<close>

theorem initializeCart_corrupted:
  assumes "getItem st CART_KEY = Some t" and "corrupted t"
  shows "initializeCart pf now st
         = Typed \<lparr>items = [], isLoading = False, error = None\<rparr>"
  using assms parseCartData_corrupted[OF assms(2), of pf now]
  by (simp add: initializeCart_def initialState_def)

theorem initializeCart_corrupted_witness:
  "corrupted (Garbage ''{oops'') \<and> corrupted (Json (JObj [(''id'', JStr ''n1'')]))
   \<and> initializeCart example_platform 0 (storage_with CART_KEY (Garbage ''{oops''))
       = Typed \<lparr>items = [], isLoading = False, error = None\<rparr>
   \<and> initializeCart example_platform 0
         (storage_with CART_KEY (Json (JObj [(''id'', JStr ''n1'')])))
       = Typed \<lparr>items = [], isLoading = False, error = None\<rparr>"
proof -
  have c1: "corrupted (Garbage ''{oops'')" and c2: "corrupted (Json (JObj [(''id'', JStr ''n1'')]))"
    by (simp_all add: corrupted_def)
  have g: "getItem (storage_with CART_KEY v) CART_KEY = Some v" for v
    by (simp add: getItem_def storage_with_def)
  from initializeCart_corrupted[OF g c1, of example_platform 0]
    initializeCart_corrupted[OF g c2, of example_platform 0] c1 c2
  show ?thesis by simp
qed

lemma trim_seller: "trim (toLowerCase ''seller@x.com'') = ''seller@x.com''"
  by (simp add: trim_def toLowerCase_def lower_char_def is_space_def)

lemma trim_Jo: "trim ''Jo'' = ''Jo''"
  by (simp add: trim_def is_space_def)

lemma avatar_seller:
  "generateAvatarUrl ''seller@x.com''
   = ''https://api.dicebear.com/7.x/avataaars/svg?seed=seller%40x.com''"
  by (simp add: generateAvatarUrl_def encodeURIComponent_def uri_unreserved_def hex_digit_def)

lemma determineUserRole_seller: "determineUserRole ''seller@x.com'' = SELLER"
  by (simp add: determineUserRole_def)


lemma register_seller_example:
  assumes "isValidEmail ''seller@x.com''" and "\<not> quota_exceeded st"
  shows "register isValidEmail pf generatedId now ''seller@x.com'' ''password1'' ''Jo'' None
           state st
         = \<lparr>run_state =
              \<lparr>auth_user =
                 Some \<lparr>user_id = generatedId, email = ''seller@x.com'', name = ''Jo'',
                       role = BUYER,
                       avatar = Some ''https://api.dicebear.com/7.x/avataaars/svg?seed=seller%40x.com'',
                       createdAt = Date now, lastLoginAt = Some (Date now)\<rparr>,
               auth_isLoading = False, auth_error = None\<rparr>,
            run_storage =
              st\<lparr>entries := (entries st)(USER_KEY \<mapsto> Json (user_json pf
                 \<lparr>user_id = generatedId, email = ''seller@x.com'', name = ''Jo'',
                  role = BUYER,
                  avatar = Some ''https://api.dicebear.com/7.x/avataaars/svg?seed=seller%40x.com'',
                  createdAt = Date now, lastLoginAt = Some (Date now)\<rparr>))\<rparr>,
            run_waited = 1000, run_thrown = None\<rparr>"
  using assms
  by (simp add: register_def Let_def validatePassword_def trim_seller trim_Jo avatar_seller
      saveUserData_def setItem_def)

lemma parseUserData_user_json:
  assumes "user_id u \<noteq> []" and "email u \<noteq> []" and "name u \<noteq> []"
    and "createdAt u = Date t" and "lastLoginAt u = Some (Date t)"
    and "toISOString pf t \<noteq> []" and "dateParse pf (toISOString pf t) = Date t"
  shows "parseUserData pf now (Json (user_json pf u)) = Typed (Some u)"
proof -
  have r: "role_text (role u) \<noteq> []" "role_of_text (role_text (role u)) = Some (role u)"
    by (cases "role u"; simp)+
  show ?thesis
    using assms r
    by (cases "avatar u")
       (simp_all add: parseUserData_def JSON_parse_def user_json_def field_truthy_def
          parsed_avatar_def parsed_createdAt_def parsed_lastLoginAt_def del: role_of_text.simps)
qed


text \<open>
  Claim C2, as stated, fails: \<^verbatim>\<open>register\<close> does not derive the role from the email. Called
  for \<^verbatim>\<open>seller@x.com\<close> without a role, it makes a user whose role is the default
  \<open>BUYER\<close>, although \<^verbatim>\<open>determineUserRole\<close>, which only \<^verbatim>\<open>login\<close> calls, gives \<open>SELLER\<close> for
  this email.
\<close>

theorem register_role_counterexample:
  "run_thrown (register example_isValidEmail example_platform ''u1'' 0 ''seller@x.com''
                 ''password1'' ''Jo'' None auth_initialState empty_storage) = None
   \<and> map_option role (auth_user (run_state
         (register example_isValidEmail example_platform ''u1'' 0 ''seller@x.com''
            ''password1'' ''Jo'' None auth_initialState empty_storage))) = Some BUYER
   \<and> map_option role (auth_user (run_state
         (register example_isValidEmail example_platform ''u1'' 0 ''seller@x.com''
            ''password1'' ''Jo'' None auth_initialState empty_storage))) \<noteq> Some SELLER
   \<and> determineUserRole ''seller@x.com'' = SELLER"
proof -
  have "example_isValidEmail ''seller@x.com''"
    by (simp add: example_isValidEmail_def)
  moreover have "\<not> quota_exceeded empty_storage"
    by (simp add: empty_storage_def)
  ultimately show ?thesis
    by (simp add: register_seller_example determineUserRole_seller)
qed

text \<open>
  Claim C2, amended. When the format validation accepts \<^verbatim>\<open>seller@x.com\<close> and the storage
  takes the write, \<^verbatim>\<open>register("seller@x.com", "password1", "Jo")\<close> without a role succeeds
  after the delay of 1000 ms with a user whose role is \<open>BUYER\<close>, the default of the role
  parameter, and persists this user: when the generated identifier is not empty and the
  platform reads the date text it wrote back as the same time, a re-initialization of the
  store from the storage ends in the same session, that is, in the state that
  \<^verbatim>\<open>register\<close> left.
\<close>

theorem register_default_role:
  assumes "isValidEmail ''seller@x.com''" and "\<not> quota_exceeded st"
    and "generatedId \<noteq> []"
    and "toISOString pf now \<noteq> []" and "dateParse pf (toISOString pf now) = Date now"
  shows "run_thrown (register isValidEmail pf generatedId now ''seller@x.com'' ''password1''
                       ''Jo'' None state st) = None
       \<and> run_waited (register isValidEmail pf generatedId now ''seller@x.com'' ''password1''
                       ''Jo'' None state st) = 1000
       \<and> run_state (register isValidEmail pf generatedId now ''seller@x.com'' ''password1''
                       ''Jo'' None state st)
           = \<lparr>auth_user =
                 Some \<lparr>user_id = generatedId, email = ''seller@x.com'', name = ''Jo'',
                       role = BUYER,
                       avatar = Some ''https://api.dicebear.com/7.x/avataaars/svg?seed=seller%40x.com'',
                       createdAt = Date now, lastLoginAt = Some (Date now)\<rparr>,
               auth_isLoading = False, auth_error = None\<rparr>
       \<and> initializeAuth pf later
             (run_storage (register isValidEmail pf generatedId now ''seller@x.com''
                             ''password1'' ''Jo'' None state st))
           = Typed (run_state (register isValidEmail pf generatedId now ''seller@x.com''
                                 ''password1'' ''Jo'' None state st))"
proof -
  let ?u = "\<lparr>user_id = generatedId, email = ''seller@x.com'', name = ''Jo'', role = BUYER,
             avatar = Some ''https://api.dicebear.com/7.x/avataaars/svg?seed=seller%40x.com'',
             createdAt = Date now, lastLoginAt = Some (Date now)\<rparr>"
  have parsed: "parseUserData pf later (Json (user_json pf ?u)) = Typed (Some ?u)"
    using assms(3-5) by (intro parseUserData_user_json) simp_all
  show ?thesis
    unfolding register_seller_example[of isValidEmail st, OF assms(1,2)]
    by (simp add: initializeAuth_def getItem_def stored_truthy_def parsed auth_initialState_def)
qed

theorem register_default_role_witness:
  "run_thrown (register example_isValidEmail example_platform ''u1'' 0 ''seller@x.com''
                 ''password1'' ''Jo'' None auth_initialState empty_storage) = None
   \<and> initializeAuth example_platform 5
         (run_storage (register example_isValidEmail example_platform ''u1'' 0 ''seller@x.com''
                         ''password1'' ''Jo'' None auth_initialState empty_storage))
       = Typed \<lparr>auth_user =
                  Some \<lparr>user_id = ''u1'', email = ''seller@x.com'', name = ''Jo'',
                        role = BUYER,
                        avatar = Some ''https://api.dicebear.com/7.x/avataaars/svg?seed=seller%40x.com'',
                        createdAt = Date 0, lastLoginAt = Some (Date 0)\<rparr>,
                auth_isLoading = False, auth_error = None\<rparr>"
proof -
  have h: "example_isValidEmail ''seller@x.com''" "\<not> quota_exceeded empty_storage"
    "''u1'' \<noteq> []" "toISOString example_platform 0 \<noteq> []"
    "dateParse example_platform (toISOString example_platform 0) = Date 0"
    by (simp_all add: example_isValidEmail_def empty_storage_def example_platform_def)
  from register_default_role[where isValidEmail = example_isValidEmail and st = empty_storage
      and generatedId = "''u1''" and pf = example_platform and now = 0
      and state = auth_initialState and later = 5] h
  show ?thesis by simp
qed

section \<open>Properties of the order history\<close>

lemma existingOrders_persisted:
  assumes "persistedOrders st = Some xs"
  shows "existingOrders st = Inr (JArr xs)"
  using assms
  by (auto simp: persistedOrders_def existingOrders_def stored_truthy_def JSON_parse_def
      split: option.splits stored.splits json.splits if_splits)

lemma recordOrder_persisted:
  assumes "\<not> quota_exceeded st" and "persistedOrders st = Some xs"
  shows "recordOrder pf now od st
         = Inr (Fresh (newOrder now od) # map Loaded xs,
                st\<lparr>entries := (entries st)(ORDERS_KEY \<mapsto>
                     Json (JArr (order_json pf (newOrder now od) # xs)))\<rparr>)"
  using assms(1)
  by (simp add: recordOrder_def ordersEffect_def existingOrders_persisted[OF assms(2)]
      setItem_def)

lemma persistedOrders_update:
  "persistedOrders (st\<lparr>entries := (entries st)(ORDERS_KEY \<mapsto> Json (JArr ys))\<rparr>) = Some ys"
  by (simp add: persistedOrders_def getItem_def)

lemma listOrders_persisted:
  assumes "persistedOrders st = Some xs"
  shows "listOrders pf now st = Inr (map Loaded xs)"
  by (simp add: listOrders_def ordersEffect_def existingOrders_persisted[OF assms])

lemma recordOrders_persisted:
  assumes "\<not> quota_exceeded st" and "persistedOrders st = Some xs"
  shows "\<exists>st'. recordOrders pf calls st = Inr st' \<and> \<not> quota_exceeded st'
           \<and> persistedOrders st'
               = Some (rev (map (\<lambda>(now, od). order_json pf (newOrder now od)) calls) @ xs)"
  using assms
proof (induction calls arbitrary: st xs)
  case Nil
  then show ?case by simp
next
  case (Cons c calls)
  obtain now od where c: "c = (now, od)" by (cases c)
  let ?st1 = "st\<lparr>entries := (entries st)(ORDERS_KEY \<mapsto>
                     Json (JArr (order_json pf (newOrder now od) # xs)))\<rparr>"
  have step: "recordOrder pf now od st = Inr (Fresh (newOrder now od) # map Loaded xs, ?st1)"
    using Cons.prems by (rule recordOrder_persisted)
  have "\<not> quota_exceeded ?st1" using Cons.prems(1) by simp
  moreover have "persistedOrders ?st1 = Some (order_json pf (newOrder now od) # xs)"
    by (rule persistedOrders_update)
  ultimately obtain st' where "recordOrders pf calls ?st1 = Inr st'" "\<not> quota_exceeded st'"
    "persistedOrders st'
       = Some (rev (map (\<lambda>(now, od). order_json pf (newOrder now od)) calls)
               @ order_json pf (newOrder now od) # xs)"
    using Cons.IH by blast
  then show ?case by (simp add: c step)
qed

lemma order_json_status:
  "json_field (order_json pf (newOrder now od)) ''status'' = Some (JStr ''completed'')"
  by (cases "od_transactionId od") (simp_all add: json_field_def order_json_def newOrder_def)

text \<open>
  Claim C8. On a storage that takes writes and whose order entry is a list (or is
  absent), \<^verbatim>\<open>recordOrder\<close> puts the new order, whose status is \<^verbatim>\<open>completed\<close> whatever the
  order data say, in front of the persisted list and of the list it shows; after any
  sequence of recordings the persisted list is the recorded orders, latest first,
  followed by the list that was there before, unchanged; and \<^verbatim>\<open>listOrders\<close> returns the
  persisted list in this order. (The sources have no other writer of the order entry.)
\<close>

theorem order_history_append_only:
  assumes "\<not> quota_exceeded st" and "persistedOrders st = Some xs"
  shows "(\<exists>st1. recordOrder pf now od st = Inr (Fresh (newOrder now od) # map Loaded xs, st1)
             \<and> persistedOrders st1 = Some (order_json pf (newOrder now od) # xs))
       \<and> order_status (newOrder now od) = OrderCompleted
       \<and> json_field (order_json pf (newOrder now od)) ''status'' = Some (JStr ''completed'')
       \<and> (\<exists>st'. recordOrders pf calls st = Inr st'
             \<and> persistedOrders st'
                 = Some (rev (map (\<lambda>(now, od). order_json pf (newOrder now od)) calls) @ xs)
             \<and> listOrders pf later st'
                 = Inr (map Loaded
                          (rev (map (\<lambda>(now, od). order_json pf (newOrder now od)) calls) @ xs)))"
proof (intro conjI)
  show "\<exists>st1. recordOrder pf now od st = Inr (Fresh (newOrder now od) # map Loaded xs, st1)
             \<and> persistedOrders st1 = Some (order_json pf (newOrder now od) # xs)"
    using recordOrder_persisted[OF assms, of pf now od] persistedOrders_update by blast
  show "order_status (newOrder now od) = OrderCompleted"
    by (simp add: newOrder_def)
  show "json_field (order_json pf (newOrder now od)) ''status'' = Some (JStr ''completed'')"
    by (rule order_json_status)
  from recordOrders_persisted[OF assms, of pf calls]
  obtain st' where st': "recordOrders pf calls st = Inr st'"
    "persistedOrders st'
       = Some (rev (map (\<lambda>(now, od). order_json pf (newOrder now od)) calls) @ xs)"
    by blast
  from listOrders_persisted[OF st'(2), of pf later] st'
  show "\<exists>st'. recordOrders pf calls st = Inr st'
             \<and> persistedOrders st'
                 = Some (rev (map (\<lambda>(now, od). order_json pf (newOrder now od)) calls) @ xs)
             \<and> listOrders pf later st'
                 = Inr (map Loaded
                          (rev (map (\<lambda>(now, od). order_json pf (newOrder now od)) calls) @ xs))"
    by blast
qed

theorem order_history_append_only_witness:
  "(case recordOrders example_platform
           [(1, example_order_data ''t1''), (2, example_order_data ''t2'')] empty_storage of
      Inl e \<Rightarrow> False
    | Inr st' \<Rightarrow>
        persistedOrders st'
          = Some [order_json example_platform (newOrder 2 (example_order_data ''t2'')),
                  order_json example_platform (newOrder 1 (example_order_data ''t1''))]
        \<and> listOrders example_platform 3 st'
          = Inr [Loaded (order_json example_platform (newOrder 2 (example_order_data ''t2''))),
                 Loaded (order_json example_platform (newOrder 1 (example_order_data ''t1'')))])
   \<and> order_id (newOrder 2 (example_order_data ''t2'')) = ''order_2''"
proof -
  have h: "\<not> quota_exceeded empty_storage" "persistedOrders empty_storage = Some []"
    by (simp_all add: empty_storage_def persistedOrders_def getItem_def)
  have d: "order_id (newOrder 2 (example_order_data ''t2'')) = ''order_2''"
    by (simp add: newOrder_def decimal_def)
  from order_history_append_only[OF h, of example_platform 1 "example_order_data ''t1''"
      "[(1, example_order_data ''t1''), (2, example_order_data ''t2'')]" 3] d
  show ?thesis by auto
qed

end
